theory Spec2Isabelle
  imports Complex_Main "HOL-Library.Multiset" "HOL-Library.AList" "HOL-Library.Log_Nat"
begin

section \<open>JavaScript numbers\<close>

text \<open>
  A JavaScript \<^verbatim>\<open>number\<close> is either a finite value or one of the three special
  values \<^verbatim>\<open>Infinity\<close>, \<^verbatim>\<open>-Infinity\<close> and \<^verbatim>\<open>NaN\<close>. Finite values are modelled
  as exact rationals: rounding, overflow to infinity and the sign of zero are not
  modelled. The special values follow IEEE 754: a division by zero gives an infinity
  (or \<^verbatim>\<open>NaN\<close> for \<^verbatim>\<open>0 / 0\<close>), zero times an infinity is \<^verbatim>\<open>NaN\<close>, and \<^verbatim>\<open>NaN\<close>
  is absorbing.
\<close>

datatype jsnum = Num rat | PosInf | NegInf | NaN

fun isFinite :: "jsnum \<Rightarrow> bool" where
  "isFinite (Num _) = True"
| "isFinite _ = False"

fun isNaN :: "jsnum \<Rightarrow> bool" where
  "isNaN NaN = True"
| "isNaN _ = False"

fun js_neg :: "jsnum \<Rightarrow> jsnum" where
  "js_neg (Num a) = Num (- a)"
| "js_neg PosInf = NegInf"
| "js_neg NegInf = PosInf"
| "js_neg NaN = NaN"

fun js_add :: "jsnum \<Rightarrow> jsnum \<Rightarrow> jsnum" where
  "js_add NaN _ = NaN"
| "js_add _ NaN = NaN"
| "js_add (Num a) (Num b) = Num (a + b)"
| "js_add PosInf NegInf = NaN"
| "js_add NegInf PosInf = NaN"
| "js_add PosInf _ = PosInf"
| "js_add _ PosInf = PosInf"
| "js_add NegInf _ = NegInf"
| "js_add _ NegInf = NegInf"

definition js_sub :: "jsnum \<Rightarrow> jsnum \<Rightarrow> jsnum" where
  "js_sub x y = js_add x (js_neg y)"

text \<open>The sign of a number: \<open>1\<close>, \<open>-1\<close>, or \<open>0\<close> for zero and \<^verbatim>\<open>NaN\<close>.\<close>

fun js_sign :: "jsnum \<Rightarrow> rat" where
  "js_sign (Num a) = sgn a"
| "js_sign PosInf = 1"
| "js_sign NegInf = - 1"
| "js_sign NaN = 0"

fun js_mul :: "jsnum \<Rightarrow> jsnum \<Rightarrow> jsnum" where
  "js_mul NaN _ = NaN"
| "js_mul _ NaN = NaN"
| "js_mul (Num a) (Num b) = Num (a * b)"
| "js_mul x y =
     (if js_sign x = 0 \<or> js_sign y = 0 then NaN
      else if js_sign x = js_sign y then PosInf else NegInf)"

fun js_div :: "jsnum \<Rightarrow> jsnum \<Rightarrow> jsnum" where
  "js_div NaN _ = NaN"
| "js_div _ NaN = NaN"
| "js_div (Num a) (Num b) =
     (if b = 0 then (if a = 0 then NaN else if 0 < a then PosInf else NegInf)
      else Num (a / b))"
| "js_div (Num a) _ = Num 0"
| "js_div x (Num b) = (if 0 \<le> b then x else js_neg x)"
| "js_div _ _ = NaN"

section \<open>Double-precision arithmetic\<close>

text \<open>
  A finite JavaScript number is a binary64 value: zero, or \<open>m * 2 ^ e\<close> with an
  integer \<open>m\<close> of at most 53 bits and \<open>e\<close> at least \<open>-1074\<close>. Every arithmetic
  operation returns the exact result rounded to the nearest such value, a tie going to
  the even \<open>m\<close>. \<open>floorLog2 x\<close> is the exponent of the leading bit of a positive
  \<open>x\<close>, found from the bit lengths of its numerator and denominator. Overflow to
  \<^verbatim>\<open>Infinity\<close>, which needs a result of \<open>2 ^ 1024\<close> or more, and the sign of zero
  are not modelled.
\<close>

definition floorLog2 :: "rat \<Rightarrow> int" where
  "floorLog2 x =
     (let (p, q) = quotient_of x; k = bitlen p - bitlen q
      in if 2 powi k \<le> x then k else k - 1)"

definition roundHalfEven :: "rat \<Rightarrow> int" where
  "roundHalfEven y =
     (let f = \<lfloor>y\<rfloor>; d = y - of_int f
      in if d < 1 / 2 then f else if 1 / 2 < d then f + 1 else if even f then f else f + 1)"

definition round64 :: "rat \<Rightarrow> rat" where
  "round64 x =
     (if x = 0 then 0
      else (let e = max (floorLog2 \<bar>x\<bar> - 52) (- 1074)
            in sgn x * of_int (roundHalfEven (\<bar>x\<bar> / 2 powi e)) * 2 powi e))"

text \<open>\<^verbatim>\<open>a + b\<close>, \<^verbatim>\<open>a - b\<close>, \<^verbatim>\<open>a * b\<close> and \<^verbatim>\<open>a / b\<close> on finite numbers, \<open>b\<close> not zero in the last.\<close>

definition fadd :: "rat \<Rightarrow> rat \<Rightarrow> rat" where
  "fadd a b = round64 (a + b)"

definition fsub :: "rat \<Rightarrow> rat \<Rightarrow> rat" where
  "fsub a b = round64 (a - b)"

definition fmul :: "rat \<Rightarrow> rat \<Rightarrow> rat" where
  "fmul a b = round64 (a * b)"

definition fdiv :: "rat \<Rightarrow> rat \<Rightarrow> rat" where
  "fdiv a b = round64 (a / b)"

section \<open>Logged trades and the profit and loss calculator\<close>

datatype TradeType = Long | Short

text \<open>
  The fields of \<^verbatim>\<open>TradingHistory\<close> that the calculator reads, and the ones that
  identify the trade. A \<^verbatim>\<open>number | null\<close> field is an option.
\<close>

record TradingHistory =
  th_id :: int
  th_name :: string
  openDate :: string
  closeDate :: "string option"
  openPrice :: jsnum
  closePrice :: "jsnum option"
  th_type :: TradeType
  level :: jsnum
  volume :: jsnum

text \<open>
  \<^verbatim>\<open>calcProfitLoss(trade)\<close>: \<^verbatim>\<open>null\<close> for an open trade, otherwise
  \<^verbatim>\<open>volume * level * priceChangeRatio\<close> when that product is finite and
  \<^verbatim>\<open>null\<close> when it is not.
\<close>

definition calcProfitLoss :: "TradingHistory \<Rightarrow> jsnum option" where
  "calcProfitLoss trade =
     (case closePrice trade of
        None \<Rightarrow> None
      | Some cp \<Rightarrow>
          (let priceChangeRatio =
                 (if th_type trade = Short
                  then js_div (js_sub (openPrice trade) cp) (openPrice trade)
                  else js_div (js_sub cp (openPrice trade)) (openPrice trade));
               profit = js_mul (js_mul (volume trade) (level trade)) priceChangeRatio
           in if isFinite profit then Some profit else None))"

text \<open>
  The whitespace that \<^verbatim>\<open>String.prototype.trim\<close> removes, restricted to the ASCII
  range: tab, line feed, vertical tab, form feed, carriage return and space.
\<close>

definition is_space :: "char \<Rightarrow> bool" where
  "is_space c = (c \<in> {CHR 0x09, CHR 0x0A, CHR 0x0B, CHR 0x0C, CHR 0x0D, CHR '' ''})"

definition trim :: "string \<Rightarrow> string" where
  "trim s = rev (dropWhile is_space (rev (dropWhile is_space s)))"

text \<open>
  The preview \<^verbatim>\<open>tempProfit\<close> of the close dialog. \<open>toNumber\<close> stands for the
  built-in conversion \<^verbatim>\<open>Number(closePriceInput)\<close>, \<open>closeTrade\<close> for the trade
  the dialog is open on (\<^verbatim>\<open>null\<close> when there is none).
\<close>

definition tempProfit ::
  "(string \<Rightarrow> jsnum) \<Rightarrow> TradingHistory option \<Rightarrow> string \<Rightarrow> jsnum option" where
  "tempProfit toNumber closeTrade closePriceInput =
     (case closeTrade of
        None \<Rightarrow> None
      | Some ct \<Rightarrow>
          (let cp = toNumber closePriceInput in
           if isNaN cp \<or> trim closePriceInput = [] then None
           else
             (let priceChangeRatio =
                    (if th_type ct = Short
                     then js_div (js_sub (openPrice ct) cp) (openPrice ct)
                     else js_div (js_sub cp (openPrice ct)) (openPrice ct));
                  profit = js_mul (js_mul (volume ct) (level ct)) priceChangeRatio
              in if isFinite profit then Some profit else None)))"

section \<open>Transactions and the position aggregator\<close>

datatype TransactionType = Buy | Sell

text \<open>
  One row of the transaction ledger (the type \<^verbatim>\<open>Asset\<close> of the pages). The
  numeric columns are finite decimals, modelled as exact rationals.
\<close>

record Asset =
  asset_id :: int
  asset_name :: string
  quantity :: rat
  pricePerCoin :: rat
  asset_type :: TransactionType
  date :: "string option"
  asset_notes :: "string option"

text \<open>The value that the loop of \<^verbatim>\<open>groupedPortfolios\<close> keeps per asset name.\<close>

record Entry =
  entry_name :: string
  latestTransaction :: Asset
  totalBuyQty :: rat
  totalBuyCost :: rat
  netQty :: rat

text \<open>
  \<^verbatim>\<open>Date.parse(d ?? "")\<close>. The built-in \<^verbatim>\<open>Date.parse\<close> is a parameter
  \<open>dateParse\<close> of the model; its result is a time value (an integer number of
  milliseconds) or \<^verbatim>\<open>NaN\<close>, which is \<open>None\<close> here.
\<close>

definition parseTime :: "(string \<Rightarrow> int option) \<Rightarrow> string option \<Rightarrow> int option" where
  "parseTime dateParse d = dateParse (case d of None \<Rightarrow> [] | Some s \<Rightarrow> s)"

text \<open>\<^verbatim>\<open>x > y\<close> and \<^verbatim>\<open>x === y\<close> on time values: both are false when a side is \<^verbatim>\<open>NaN\<close>.\<close>

fun time_gt :: "int option \<Rightarrow> int option \<Rightarrow> bool" where
  "time_gt (Some a) (Some b) = (b < a)"
| "time_gt _ _ = False"

fun time_eq :: "int option \<Rightarrow> int option \<Rightarrow> bool" where
  "time_eq (Some a) (Some b) = (a = b)"
| "time_eq _ _ = False"

text \<open>The test under which the loop replaces \<^verbatim>\<open>existing.latestTransaction\<close> by \<open>tx\<close>.\<close>

definition replacesLatest :: "(string \<Rightarrow> int option) \<Rightarrow> Asset \<Rightarrow> Asset \<Rightarrow> bool" where
  "replacesLatest dateParse tx latest =
     (let existingTime = parseTime dateParse (date latest);
          txTime = parseTime dateParse (date tx)
      in existingTime = None
         \<or> (txTime \<noteq> None \<and> time_gt txTime existingTime)
         \<or> (time_eq txTime existingTime \<and> asset_id latest < asset_id tx))"

text \<open>
  One iteration of \<^verbatim>\<open>for (const tx of assets)\<close>. The \<^verbatim>\<open>Map\<close> is an association
  list in insertion order: \<^verbatim>\<open>map.get\<close> is \<^const>\<open>map_of\<close>, and \<^verbatim>\<open>map.set\<close>, like
  the in-place mutation of a stored entry, is \<^const>\<open>AList.update\<close>, which keeps the
  position of a key that is present and appends a new key.
\<close>

definition groupStep ::
  "(string \<Rightarrow> int option) \<Rightarrow> Asset \<Rightarrow> (string \<times> Entry) list \<Rightarrow> (string \<times> Entry) list" where
  "groupStep dateParse tx m =
     (case map_of m (asset_name tx) of
        None \<Rightarrow>
          AList.update (asset_name tx)
            \<lparr>entry_name = asset_name tx,
             latestTransaction = tx,
             totalBuyQty = (if asset_type tx = Buy then quantity tx else 0),
             totalBuyCost = (if asset_type tx = Buy then quantity tx * pricePerCoin tx else 0),
             netQty = (if asset_type tx = Buy then quantity tx else - quantity tx)\<rparr> m
      | Some existing \<Rightarrow>
          (let e1 = (if asset_type tx = Buy
                     then existing\<lparr>totalBuyQty := totalBuyQty existing + quantity tx,
                                   totalBuyCost := totalBuyCost existing + quantity tx * pricePerCoin tx,
                                   netQty := netQty existing + quantity tx\<rparr>
                     else existing\<lparr>netQty := netQty existing - quantity tx\<rparr>);
               e2 = (if replacesLatest dateParse tx (latestTransaction e1)
                     then e1\<lparr>latestTransaction := tx\<rparr> else e1)
           in AList.update (asset_name tx) e2 m))"

definition groupEntries :: "(string \<Rightarrow> int option) \<Rightarrow> Asset list \<Rightarrow> (string \<times> Entry) list" where
  "groupEntries dateParse assets = fold (groupStep dateParse) assets []"

text \<open>
  The same loop with every arithmetic operation rounded to a double, as the page runs
  it. \<^const>\<open>groupStep\<close> above computes with exact numbers and serves the statements
  about the formulas; this one serves the statements that depend on the order of the
  additions.
\<close>

definition groupStep64 ::
  "(string \<Rightarrow> int option) \<Rightarrow> Asset \<Rightarrow> (string \<times> Entry) list \<Rightarrow> (string \<times> Entry) list" where
  "groupStep64 dateParse tx m =
     (case map_of m (asset_name tx) of
        None \<Rightarrow>
          AList.update (asset_name tx)
            \<lparr>entry_name = asset_name tx,
             latestTransaction = tx,
             totalBuyQty = (if asset_type tx = Buy then quantity tx else 0),
             totalBuyCost = (if asset_type tx = Buy then fmul (quantity tx) (pricePerCoin tx) else 0),
             netQty = (if asset_type tx = Buy then quantity tx else - quantity tx)\<rparr> m
      | Some existing \<Rightarrow>
          (let e1 = (if asset_type tx = Buy
                     then existing\<lparr>totalBuyQty := fadd (totalBuyQty existing) (quantity tx),
                                   totalBuyCost := fadd (totalBuyCost existing)
                                                     (fmul (quantity tx) (pricePerCoin tx)),
                                   netQty := fadd (netQty existing) (quantity tx)\<rparr>
                     else existing\<lparr>netQty := fsub (netQty existing) (quantity tx)\<rparr>);
               e2 = (if replacesLatest dateParse tx (latestTransaction e1)
                     then e1\<lparr>latestTransaction := tx\<rparr> else e1)
           in AList.update (asset_name tx) e2 m))"

definition groupEntries64 :: "(string \<Rightarrow> int option) \<Rightarrow> Asset list \<Rightarrow> (string \<times> Entry) list" where
  "groupEntries64 dateParse assets = fold (groupStep64 dateParse) assets []"

text \<open>
  \<^verbatim>\<open>Array.prototype.sort(compare)\<close>, a stable sort: an insertion sort that puts
  \<open>x\<close> before \<open>y\<close> when \<^verbatim>\<open>compare(x, y) <= 0\<close>. Every stable sort gives this
  result when the comparison is consistent.
\<close>

fun insertBy :: "('a \<Rightarrow> 'a \<Rightarrow> rat) \<Rightarrow> 'a \<Rightarrow> 'a list \<Rightarrow> 'a list" where
  "insertBy compare x [] = [x]"
| "insertBy compare x (y # ys) =
     (if compare x y \<le> 0 then x # y # ys else y # insertBy compare x ys)"

definition sortBy :: "('a \<Rightarrow> 'a \<Rightarrow> rat) \<Rightarrow> 'a list \<Rightarrow> 'a list" where
  "sortBy compare xs = foldr (insertBy compare) xs []"

text \<open>\<^verbatim>\<open>xs.reduce((sum, item) => sum + f(item), 0)\<close>.\<close>

definition reduceSum :: "('a \<Rightarrow> rat) \<Rightarrow> 'a list \<Rightarrow> rat" where
  "reduceSum f xs = fold (\<lambda>item sum. sum + f item) xs 0"

subsection \<open>The portfolio list of the assets page\<close>

record GroupedPortfolio =
  gp_name :: string
  currentPrice :: rat
  holdingsQuantity :: rat
  holdingsValue :: rat
  avgBuyPrice :: "rat option"
  profitValue :: "rat option"
  profitPercent :: "rat option"

definition toGroupedPortfolio :: "Asset list \<Rightarrow> Entry \<Rightarrow> GroupedPortfolio" where
  "toGroupedPortfolio assets entry =
     (let avg = (if 0 < totalBuyQty entry
                 then Some (totalBuyCost entry / totalBuyQty entry) else None);
          price = pricePerCoin (latestTransaction entry);
          hv = netQty entry * price;
          sellTransactions =
            filter (\<lambda>item. asset_name item = entry_name entry \<and> asset_type item = Sell) assets;
          totalSellQuantity = reduceSum quantity sellTransactions;
          pv = (case avg of
                  None \<Rightarrow> None
                | Some a \<Rightarrow>
                    if 0 < a \<and> 0 < totalSellQuantity
                    then Some (reduceSum (\<lambda>item. (pricePerCoin item - a) * quantity item)
                                 sellTransactions)
                    else None);
          pp = (case (pv, avg) of
                  (Some p, Some a) \<Rightarrow>
                    if 0 < a \<and> 0 < totalSellQuantity
                    then Some (p / (a * totalSellQuantity) * 100) else None
                | _ \<Rightarrow> None)
      in \<lparr>gp_name = entry_name entry,
          currentPrice = price,
          holdingsQuantity = netQty entry,
          holdingsValue = hv,
          avgBuyPrice = avg,
          profitValue = pv,
          profitPercent = pp\<rparr>)"

definition groupedPortfolios ::
  "(string \<Rightarrow> int option) \<Rightarrow> Asset list \<Rightarrow> GroupedPortfolio list" where
  "groupedPortfolios dateParse assets =
     sortBy (\<lambda>a b. holdingsValue b - holdingsValue a)
       (map (toGroupedPortfolio assets) (map snd (groupEntries dateParse assets)))"

record PortfolioSummary =
  firstCapital :: rat
  totalProfit :: rat
  allTimeProfitPercent :: "rat option"
  totalUsdt :: rat
  remainUsdt :: rat
  totalUsdtPercent :: "rat option"
  remainUsdtPercent :: "rat option"

definition portfolioSummary :: "GroupedPortfolio list \<Rightarrow> PortfolioSummary" where
  "portfolioSummary gps =
     (let fc = 2000;
          tp = reduceSum (\<lambda>item. case profitValue item of None \<Rightarrow> 0 | Some p \<Rightarrow> p) gps;
          tu = fc + tp;
          holdingUsdt = reduceSum (\<lambda>item. max (holdingsValue item) 0) gps;
          ru = tu - holdingUsdt
      in \<lparr>firstCapital = fc,
          totalProfit = tp,
          allTimeProfitPercent = (if 0 < fc then Some (tp / fc * 100) else None),
          totalUsdt = tu,
          remainUsdt = ru,
          totalUsdtPercent = (if 0 < fc then Some (tu / fc * 100) else None),
          remainUsdtPercent = (if tu \<noteq> 0 then Some (ru / tu * 100) else None)\<rparr>)"

subsection \<open>The dashboard\<close>

record HoldingEntry =
  he_name :: string
  he_quantity :: rat
  buyQuantity :: rat
  buyCost :: rat

record Holding =
  h_id :: nat
  h_name :: string
  h_quantity :: rat
  h_avgBuyPrice :: rat

text \<open>The loop and the filter of \<^verbatim>\<open>holdings\<close>, every arithmetic operation rounded to a double.\<close>

definition holdingsStep :: "Asset \<Rightarrow> (string \<times> HoldingEntry) list \<Rightarrow> (string \<times> HoldingEntry) list" where
  "holdingsStep tx m =
     (let entry = (case map_of m (asset_name tx) of
                     Some e \<Rightarrow> e
                   | None \<Rightarrow> \<lparr>he_name = asset_name tx, he_quantity = 0,
                               buyQuantity = 0, buyCost = 0\<rparr>);
          entry' = (if asset_type tx = Buy
                    then entry\<lparr>he_quantity := fadd (he_quantity entry) (quantity tx),
                                buyQuantity := fadd (buyQuantity entry) (quantity tx),
                                buyCost := fadd (buyCost entry)
                                             (fmul (quantity tx) (pricePerCoin tx))\<rparr>
                    else entry\<lparr>he_quantity := fsub (he_quantity entry) (quantity tx)\<rparr>)
      in AList.update (asset_name tx) entry' m)"

definition holdings :: "Asset list \<Rightarrow> Holding list" where
  "holdings assets =
     (let kept = filter (\<lambda>item. 0 < he_quantity item) (map snd (fold holdingsStep assets []))
      in map (\<lambda>(item, index).
                \<lparr>h_id = index + 1,
                 h_name = he_name item,
                 h_quantity = he_quantity item,
                 h_avgBuyPrice = (if 0 < buyQuantity item
                                  then fdiv (buyCost item) (buyQuantity item) else 0)\<rparr>)
           (zip kept [0 ..< length kept]))"

text \<open>The dashboard's own \<^verbatim>\<open>GroupedPortfolio\<close> and \<^verbatim>\<open>groupedPortfolios\<close>: the same loop, another projection.\<close>

record DashboardPortfolio =
  dp_name :: string
  currentCost :: rat
  dp_profitValue :: "rat option"

definition toDashboardPortfolio :: "Asset list \<Rightarrow> Entry \<Rightarrow> DashboardPortfolio" where
  "toDashboardPortfolio assets entry =
     (let avg = (if 0 < totalBuyQty entry
                 then Some (totalBuyCost entry / totalBuyQty entry) else None);
          sellTransactions =
            filter (\<lambda>item. asset_name item = entry_name entry \<and> asset_type item = Sell) assets;
          totalSellQuantity = reduceSum quantity sellTransactions;
          soldCapital = (case avg of
                           None \<Rightarrow> 0
                         | Some a \<Rightarrow> if 0 < a then a * totalSellQuantity else 0);
          pv = (case avg of
                  None \<Rightarrow> None
                | Some a \<Rightarrow>
                    if 0 < a \<and> 0 < totalSellQuantity
                    then Some (reduceSum (\<lambda>item. (pricePerCoin item - a) * quantity item)
                                 sellTransactions)
                    else None)
      in \<lparr>dp_name = entry_name entry,
          currentCost = totalBuyCost entry - soldCapital,
          dp_profitValue = pv\<rparr>)"

definition dashboardPortfolios ::
  "(string \<Rightarrow> int option) \<Rightarrow> Asset list \<Rightarrow> DashboardPortfolio list" where
  "dashboardPortfolios dateParse assets =
     map (toDashboardPortfolio assets) (map snd (groupEntries dateParse assets))"

record DashboardSummary =
  ds_firstCapital :: rat
  ds_remainUsdt :: rat
  ds_totalProfit :: rat
  ds_totalLoss :: rat
  ds_totalProfitNet :: rat

definition summary :: "DashboardPortfolio list \<Rightarrow> DashboardSummary" where
  "summary gps =
     (let fc = 2000;
          profitOf = (\<lambda>item. case dp_profitValue item of None \<Rightarrow> 0 | Some p \<Rightarrow> p);
          net = reduceSum profitOf gps;
          tp = reduceSum (\<lambda>item. max (profitOf item) 0) gps;
          tl = reduceSum (\<lambda>item. min (profitOf item) 0) gps;
          holdingUsdt = reduceSum (\<lambda>item. max (currentCost item) 0) gps;
          ru = fc - holdingUsdt
      in \<lparr>ds_firstCapital = fc,
          ds_remainUsdt = ru,
          ds_totalProfit = tp,
          ds_totalLoss = tl,
          ds_totalProfitNet = net\<rparr>)"

subsection \<open>The detail page of one asset\<close>

definition detailCompare :: "(string \<Rightarrow> int option) \<Rightarrow> Asset \<Rightarrow> Asset \<Rightarrow> rat" where
  "detailCompare dateParse a b =
     (case (parseTime dateParse (date a), parseTime dateParse (date b)) of
        (Some aTime, Some bTime) \<Rightarrow> of_int (bTime - aTime)
      | _ \<Rightarrow> of_int (asset_id b - asset_id a))"

definition detailTransactions ::
  "(string \<Rightarrow> int option) \<Rightarrow> string \<Rightarrow> Asset list \<Rightarrow> Asset list" where
  "detailTransactions dateParse detailName assets =
     sortBy (detailCompare dateParse) (filter (\<lambda>tx. asset_name tx = detailName) assets)"

text \<open>\<^verbatim>\<open>detailSummary\<close> without its \<^verbatim>\<open>symbol\<close> field, the upper-cased name.\<close>

record DetailSummary =
  totalValue :: rat
  netQuantity :: rat
  detailAvgBuyPrice :: "rat option"
  detailTotalProfit :: rat
  totalProfitPercent :: "rat option"

definition detailSummary :: "Asset list \<Rightarrow> DetailSummary" where
  "detailSummary transactions =
     (let buys = filter (\<lambda>tx. asset_type tx = Buy) transactions;
          sells = filter (\<lambda>tx. asset_type tx = Sell) transactions;
          bq = reduceSum quantity buys;
          bc = reduceSum (\<lambda>tx. quantity tx * pricePerCoin tx) buys;
          soldQty = reduceSum quantity sells;
          avg = (if 0 < bq then Some (bc / bq) else None);
          nq = reduceSum (\<lambda>tx. if asset_type tx = Buy then quantity tx else - quantity tx)
                 transactions;
          price = (case transactions of [] \<Rightarrow> 0 | tx # _ \<Rightarrow> pricePerCoin tx);
          profit = (case avg of
                      None \<Rightarrow> 0
                    | Some a \<Rightarrow>
                        if 0 < a
                        then reduceSum (\<lambda>tx. (pricePerCoin tx - a) * quantity tx) sells
                        else 0)
      in \<lparr>totalValue = nq * price,
          netQuantity = nq,
          detailAvgBuyPrice = avg,
          detailTotalProfit = profit,
          totalProfitPercent =
            (case avg of
               None \<Rightarrow> None
             | Some a \<Rightarrow> if 0 < a \<and> 0 < soldQty
                         then Some (profit / (a * soldQty) * 100) else None)\<rparr>)"

text \<open>
  The \<^verbatim>\<open>netQuantity\<close> of \<^verbatim>\<open>detailSummary\<close> with its additions rounded to a
  double: \<^verbatim>\<open>transactions.reduce((sum, tx) => sum + (buy ? quantity : -quantity), 0)\<close>.
\<close>

definition netQuantity64 :: "Asset list \<Rightarrow> rat" where
  "netQuantity64 transactions =
     fold (\<lambda>tx sum. fadd sum (if asset_type tx = Buy then quantity tx else - quantity tx))
       transactions 0"

section \<open>Stored list fields\<close>

text \<open>A JavaScript value, as a column of a database row can hold one.\<close>

datatype jsval =
    JUndefined
  | JNull
  | JBool bool
  | JNumber jsnum
  | JString string
  | JArray "jsval list"
  | JObject "(string \<times> jsval) list"

text \<open>\<^verbatim>\<open>!value\<close>.\<close>

fun falsy :: "jsval \<Rightarrow> bool" where
  "falsy JUndefined = True"
| "falsy JNull = True"
| "falsy (JBool b) = (\<not> b)"
| "falsy (JNumber n) = (n = Num 0 \<or> n = NaN)"
| "falsy (JString s) = (s = [])"
| "falsy (JArray _) = False"
| "falsy (JObject _) = False"

text \<open>\<^verbatim>\<open>value.split(",")\<close>: the pieces between commas; one empty piece for the empty string.\<close>

fun splitComma :: "string \<Rightarrow> string list" where
  "splitComma [] = [[]]"
| "splitComma (c # cs) =
     (if c = CHR '','' then [] # splitComma cs
      else (case splitComma cs of
              [] \<Rightarrow> [[c]]
            | w # ws \<Rightarrow> (c # w) # ws))"

text \<open>
  \<^verbatim>\<open>parseReferenceImages\<close> of the trade model. The built-ins are parameters:
  \<open>jsonParse\<close> is \<^verbatim>\<open>JSON.parse\<close>, \<open>None\<close> when it throws, and \<open>toStr\<close> is
  \<^verbatim>\<open>String(item)\<close>. The \<^verbatim>\<open>catch\<close> branch is the case \<open>None\<close>.
\<close>

definition parseReferenceImages ::
  "(string \<Rightarrow> jsval option) \<Rightarrow> (jsval \<Rightarrow> string) \<Rightarrow> jsval \<Rightarrow> string list" where
  "parseReferenceImages jsonParse toStr val =
     (if falsy val then []
      else
        (case val of
           JArray items \<Rightarrow> map toStr items
         | JString s \<Rightarrow>
             (case jsonParse s of
                None \<Rightarrow> filter (\<lambda>item. item \<noteq> []) (map trim (splitComma s))
              | Some (JArray items) \<Rightarrow> map toStr items
              | Some _ \<Rightarrow> [])
         | _ \<Rightarrow> []))"

text \<open>\<^verbatim>\<open>parseImageReferences\<close> of the strategy model: the same code under another name.\<close>

definition parseImageReferences ::
  "(string \<Rightarrow> jsval option) \<Rightarrow> (jsval \<Rightarrow> string) \<Rightarrow> jsval \<Rightarrow> string list" where
  "parseImageReferences jsonParse toStr val =
     (if falsy val then []
      else
        (case val of
           JArray items \<Rightarrow> map toStr items
         | JString s \<Rightarrow>
             (case jsonParse s of
                None \<Rightarrow> filter (\<lambda>item. item \<noteq> []) (map trim (splitComma s))
              | Some (JArray items) \<Rightarrow> map toStr items
              | Some _ \<Rightarrow> [])
         | _ \<Rightarrow> []))"

section \<open>Notions used in the statements\<close>

text \<open>
  The transactions of one asset name, its buys and its sells, in the order of the input
  list; the quantity of a transaction with the sign of its type; the net quantity of an
  asset; and an absent profit read as zero.
\<close>

definition transactionsOf :: "string \<Rightarrow> Asset list \<Rightarrow> Asset list" where
  "transactionsOf n assets = filter (\<lambda>tx. asset_name tx = n) assets"

definition buysOf :: "string \<Rightarrow> Asset list \<Rightarrow> Asset list" where
  "buysOf n assets = filter (\<lambda>tx. asset_name tx = n \<and> asset_type tx = Buy) assets"

definition sellsOf :: "string \<Rightarrow> Asset list \<Rightarrow> Asset list" where
  "sellsOf n assets = filter (\<lambda>tx. asset_name tx = n \<and> asset_type tx = Sell) assets"

definition signedQuantity :: "Asset \<Rightarrow> rat" where
  "signedQuantity tx = (if asset_type tx = Buy then quantity tx else - quantity tx)"

definition netOf :: "string \<Rightarrow> Asset list \<Rightarrow> rat" where
  "netOf n assets =
     sum_list (map quantity (buysOf n assets)) - sum_list (map quantity (sellsOf n assets))"

definition profitOrZero :: "rat option \<Rightarrow> rat" where
  "profitOrZero p = (case p of None \<Rightarrow> 0 | Some v \<Rightarrow> v)"

text \<open>
  The signed quantities of one asset in list order; the running sum of a list of
  numbers from a start value, each addition rounded to a double; and the condition that
  no addition of that running sum rounds.
\<close>

definition groupSigned :: "string \<Rightarrow> Asset list \<Rightarrow> rat list" where
  "groupSigned n assets = map signedQuantity (transactionsOf n assets)"

fun runningSum :: "rat \<Rightarrow> rat list \<Rightarrow> rat" where
  "runningSum s [] = s"
| "runningSum s (q # qs) = runningSum (fadd s q) qs"

fun noRounding :: "rat \<Rightarrow> rat list \<Rightarrow> bool" where
  "noRounding s [] = True"
| "noRounding s (q # qs) = (fadd s q = s + q \<and> noRounding (s + q) qs)"

text \<open>The same two, for a sum that starts with the first number of the list.\<close>

definition runningNet :: "rat list \<Rightarrow> rat" where
  "runningNet qs = (case qs of [] \<Rightarrow> 0 | q # rest \<Rightarrow> runningSum q rest)"

definition exactNet :: "rat list \<Rightarrow> bool" where
  "exactNet qs = (case qs of [] \<Rightarrow> True | q # rest \<Rightarrow> noRounding q rest)"

text \<open>The entry of the portfolio list that carries the asset name \<open>n\<close>.\<close>

definition portfolioOf ::
  "(string \<Rightarrow> int option) \<Rightarrow> Asset list \<Rightarrow> string \<Rightarrow> GroupedPortfolio option" where
  "portfolioOf dateParse assets n = find (\<lambda>g. gp_name g = n) (groupedPortfolios dateParse assets)"

text \<open>
  \<open>b\<close> comes before \<open>a\<close> in the order by date, then by id: both dates parse, and
  \<open>b\<close> has the smaller time, or the same time and the smaller id.
\<close>

definition earlierThan :: "(string \<Rightarrow> int option) \<Rightarrow> Asset \<Rightarrow> Asset \<Rightarrow> bool" where
  "earlierThan dateParse b a =
     (case (parseTime dateParse (date b), parseTime dateParse (date a)) of
        (Some tb, Some ta) \<Rightarrow> tb < ta \<or> (tb = ta \<and> asset_id b < asset_id a)
      | _ \<Rightarrow> False)"

section \<open>Auxiliary functions of the proofs\<close>

text \<open>
  Both grouping loops update the entry stored under the key of the current transaction
  from the entry found there, if any. \<open>keyedStep\<close> is that shape of loop body, and
  \<open>keyedFold\<close> is what the loop does to the entry of a single key.
\<close>

definition keyedStep ::
  "('t \<Rightarrow> string) \<Rightarrow> ('t \<Rightarrow> 'e option \<Rightarrow> 'e) \<Rightarrow> 't \<Rightarrow> (string \<times> 'e) list \<Rightarrow> (string \<times> 'e) list" where
  "keyedStep key f tx m = AList.update (key tx) (f tx (map_of m (key tx))) m"

definition keyedFold :: "('t \<Rightarrow> 'e option \<Rightarrow> 'e) \<Rightarrow> 't list \<Rightarrow> 'e option \<Rightarrow> 'e option" where
  "keyedFold f txs eo = fold (\<lambda>tx eo. Some (f tx eo)) txs eo"

text \<open>The entry that \<^const>\<open>groupStep\<close> stores, from the entry it found.\<close>

definition entryStep :: "(string \<Rightarrow> int option) \<Rightarrow> Asset \<Rightarrow> Entry option \<Rightarrow> Entry" where
  "entryStep dateParse tx eo =
     (case eo of
        None \<Rightarrow>
          \<lparr>entry_name = asset_name tx,
           latestTransaction = tx,
           totalBuyQty = (if asset_type tx = Buy then quantity tx else 0),
           totalBuyCost = (if asset_type tx = Buy then quantity tx * pricePerCoin tx else 0),
           netQty = (if asset_type tx = Buy then quantity tx else - quantity tx)\<rparr>
      | Some existing \<Rightarrow>
          existing\<lparr>totalBuyQty := totalBuyQty existing + (if asset_type tx = Buy then quantity tx else 0),
                   totalBuyCost := totalBuyCost existing
                     + (if asset_type tx = Buy then quantity tx * pricePerCoin tx else 0),
                   netQty := netQty existing + (if asset_type tx = Buy then quantity tx else - quantity tx),
                   latestTransaction :=
                     (if replacesLatest dateParse tx (latestTransaction existing)
                      then tx else latestTransaction existing)\<rparr>)"

text \<open>The latest transaction of a group, as the loop tracks it from the first one \<open>l\<close>.\<close>

fun latestFold :: "(string \<Rightarrow> int option) \<Rightarrow> Asset list \<Rightarrow> Asset \<Rightarrow> Asset" where
  "latestFold dateParse [] l = l"
| "latestFold dateParse (tx # txs) l =
     latestFold dateParse txs (if replacesLatest dateParse tx l then tx else l)"

text \<open>\<open>l\<close> has a date that parses and does not come before \<open>a\<close>.\<close>

definition notBefore :: "(string \<Rightarrow> int option) \<Rightarrow> Asset \<Rightarrow> Asset \<Rightarrow> bool" where
  "notBefore dateParse a l =
     (parseTime dateParse (date l) \<noteq> None \<and> \<not> earlierThan dateParse l a)"

text \<open>The entry that \<^const>\<open>groupStep64\<close> stores, from the entry it found.\<close>

definition entryStep64 :: "(string \<Rightarrow> int option) \<Rightarrow> Asset \<Rightarrow> Entry option \<Rightarrow> Entry" where
  "entryStep64 dateParse tx eo =
     (case eo of
        None \<Rightarrow>
          \<lparr>entry_name = asset_name tx,
           latestTransaction = tx,
           totalBuyQty = (if asset_type tx = Buy then quantity tx else 0),
           totalBuyCost = (if asset_type tx = Buy then fmul (quantity tx) (pricePerCoin tx) else 0),
           netQty = (if asset_type tx = Buy then quantity tx else - quantity tx)\<rparr>
      | Some existing \<Rightarrow>
          existing\<lparr>totalBuyQty :=
                     (if asset_type tx = Buy then fadd (totalBuyQty existing) (quantity tx)
                      else totalBuyQty existing),
                   totalBuyCost :=
                     (if asset_type tx = Buy
                      then fadd (totalBuyCost existing) (fmul (quantity tx) (pricePerCoin tx))
                      else totalBuyCost existing),
                   netQty :=
                     (if asset_type tx = Buy then fadd (netQty existing) (quantity tx)
                      else fsub (netQty existing) (quantity tx)),
                   latestTransaction :=
                     (if replacesLatest dateParse tx (latestTransaction existing)
                      then tx else latestTransaction existing)\<rparr>)"

text \<open>The entry that \<^const>\<open>holdingsStep\<close> stores, and the map that the loop of \<^const>\<open>holdings\<close> builds.\<close>

definition holdingEntryStep :: "Asset \<Rightarrow> HoldingEntry option \<Rightarrow> HoldingEntry" where
  "holdingEntryStep tx eo =
     (let entry = (case eo of
                     Some e \<Rightarrow> e
                   | None \<Rightarrow> \<lparr>he_name = asset_name tx, he_quantity = 0,
                               buyQuantity = 0, buyCost = 0\<rparr>)
      in if asset_type tx = Buy
         then entry\<lparr>he_quantity := fadd (he_quantity entry) (quantity tx),
                     buyQuantity := fadd (buyQuantity entry) (quantity tx),
                     buyCost := fadd (buyCost entry) (fmul (quantity tx) (pricePerCoin tx))\<rparr>
         else entry\<lparr>he_quantity := fsub (he_quantity entry) (quantity tx)\<rparr>)"

definition holdingEntries :: "Asset list \<Rightarrow> (string \<times> HoldingEntry) list" where
  "holdingEntries assets = fold holdingsStep assets []"

section \<open>Example data\<close>

text \<open>
  The built-in \<^verbatim>\<open>Number(text)\<close> on the inputs of the examples: two decimal
  numerals, blank text (which converts to zero), and \<^verbatim>\<open>NaN\<close> elsewhere.
\<close>

definition exampleNumber :: "string \<Rightarrow> jsnum" where
  "exampleNumber s =
     (if s = ''110'' then Num 110 else if s = ''90'' then Num 90
      else if trim s = [] then Num 0 else NaN)"

text \<open>The trade of the specification's scenarios: level 5, volume 2.\<close>

definition scenarioTrade :: "TradeType \<Rightarrow> jsnum \<Rightarrow> jsnum option \<Rightarrow> TradingHistory" where
  "scenarioTrade ty op cl =
     \<lparr>th_id = 1, th_name = ''BTC'', openDate = ''2024-01-01'', closeDate = None,
      openPrice = op, closePrice = cl, th_type = ty, level = Num 5, volume = Num 2\<rparr>"

text \<open>
  The built-in \<^verbatim>\<open>Date.parse\<close> on the three dates of the scenarios, as milliseconds
  since the epoch; every other text, the empty text of a missing date among them, does
  not parse.
\<close>

definition exampleDateParse :: "string \<Rightarrow> int option" where
  "exampleDateParse s =
     (if s = ''2024-01-01'' then Some 1704067200000
      else if s = ''2024-02-01'' then Some 1706745600000
      else if s = ''2024-03-01'' then Some 1709251200000
      else None)"

definition transaction ::
  "int \<Rightarrow> string \<Rightarrow> TransactionType \<Rightarrow> rat \<Rightarrow> rat \<Rightarrow> string option \<Rightarrow> Asset" where
  "transaction i n ty q p d =
     \<lparr>asset_id = i, asset_name = n, quantity = q, pricePerCoin = p, asset_type = ty,
      date = d, asset_notes = None\<rparr>"

text \<open>
  The ledgers of the specification's scenarios A, B and F, B and F together, two
  transactions of one day, and two transactions without a date in the order in which the
  store returns them (by id, descending).
\<close>

definition scenarioA :: "Asset list" where
  "scenarioA =
     [transaction 1 ''BTC'' Buy 1 10000 (Some ''2024-01-01''),
      transaction 2 ''BTC'' Buy 1 20000 (Some ''2024-02-01'')]"

definition scenarioB :: "Asset list" where
  "scenarioB = scenarioA @ [transaction 3 ''BTC'' Sell 1 25000 (Some ''2024-03-01'')]"

definition scenarioF :: "Asset list" where
  "scenarioF = [transaction 4 ''ETH'' Sell 2 3000 (Some ''2024-01-01'')]"

definition mixedLedger :: "Asset list" where
  "mixedLedger = scenarioB @ scenarioF"

definition sameDay :: "Asset list" where
  "sameDay =
     [transaction 7 ''SOL'' Buy 1 150 (Some ''2024-02-01''),
      transaction 5 ''SOL'' Buy 1 100 (Some ''2024-02-01'')]"

definition undated :: "Asset list" where
  "undated =
     [transaction 9 ''ADA'' Buy 1 2 None,
      transaction 8 ''ADA'' Buy 1 1 None]"

text \<open>
  Three buys of 0.1, 0.2 and 0.3, and buys of 1.46 and 0.87 followed by sells of 1.45
  and 0.88, each quantity the double that the decimal converts to.
\<close>

definition tenths :: "Asset list" where
  "tenths =
     [transaction 11 ''DOT'' Buy (round64 (1 / 10)) 5 (Some ''2024-01-01''),
      transaction 12 ''DOT'' Buy (round64 (2 / 10)) 5 (Some ''2024-01-01''),
      transaction 13 ''DOT'' Buy (round64 (3 / 10)) 5 (Some ''2024-01-01'')]"

definition residueLedger :: "Asset list" where
  "residueLedger =
     [transaction 21 ''LTC'' Buy (round64 (146 / 100)) 70 (Some ''2024-01-01''),
      transaction 22 ''LTC'' Buy (round64 (87 / 100)) 70 (Some ''2024-01-01''),
      transaction 23 ''LTC'' Sell (round64 (145 / 100)) 70 (Some ''2024-02-01''),
      transaction 24 ''LTC'' Sell (round64 (88 / 100)) 70 (Some ''2024-02-01'')]"

text \<open>
  A stand-in for \<^verbatim>\<open>JSON.parse\<close> that knows two JSON texts and rejects every other
  text, among them the comma-separated list of the examples, which is not JSON; and
  \<^verbatim>\<open>String(item)\<close> on strings.
\<close>

definition exampleJsonParse :: "string \<Rightarrow> jsval option" where
  "exampleJsonParse s =
     (if s = ''[]'' then Some (JArray [])
      else if s = ''7'' then Some (JNumber (Num 7))
      else None)"

fun exampleToStr :: "jsval \<Rightarrow> string" where
  "exampleToStr (JString s) = s"
| "exampleToStr _ = ''?''"

lemmas ex_defs = exampleDateParse_def transaction_def scenarioA_def scenarioB_def scenarioF_def
  sameDay_def undated_def

lemmas model_defs = portfolioOf_def groupedPortfolios_def groupEntries_def groupStep_def
  toGroupedPortfolio_def sortBy_def reduceSum_def replacesLatest_def parseTime_def Let_def
  buysOf_def sellsOf_def transactionsOf_def detailSummary_def detailTransactions_def detailCompare_def

lemmas dash_defs = dashboardPortfolios_def toDashboardPortfolio_def summary_def portfolioSummary_def

section \<open>Properties of the profit and loss calculator\<close>

lemma isFinite_iff: "isFinite x \<longleftrightarrow> (\<exists>r. x = Num r)"
  by (cases x) simp_all

lemma js_sub_Num [simp]: "js_sub (Num a) (Num b) = Num (a - b)"
  by (simp add: js_sub_def)

lemma js_div_by_zero: "\<not> isFinite (js_div (Num a) (Num 0))"
  by simp

lemma js_mul_not_finite: "\<not> isFinite y \<Longrightarrow> \<not> isFinite (js_mul x y)"
  by (cases x; cases y) simp_all

lemma calcProfitLoss_finite: "calcProfitLoss t = Some r \<Longrightarrow> isFinite r"
  by (auto simp: calcProfitLoss_def Let_def split: option.splits if_splits)

text \<open>
  Claim C4. For a trade whose open price, volume and level are finite numbers, as the
  store holds them: an open trade (close price \<^verbatim>\<open>null\<close>) has no result; a closed
  trade with open price zero has no result; a closed trade with a non-zero open price
  has the result \<open>volume * level * ratio\<close>, where the ratio is
  \<open>(close - open) / open\<close> for a long trade and \<open>(open - close) / open\<close> for a short
  one. Whatever the trade, a result that is returned is a finite number.
\<close>

theorem calcProfitLoss_formula:
  assumes "openPrice t = Num p" and "volume t = Num v" and "level t = Num l"
  shows "(closePrice t = None \<longrightarrow> calcProfitLoss t = None)
       \<and> (\<forall>c. closePrice t = Some (Num c) \<longrightarrow>
             (p = 0 \<longrightarrow> calcProfitLoss t = None)
           \<and> (p \<noteq> 0 \<and> th_type t = Long \<longrightarrow>
                 calcProfitLoss t = Some (Num (v * l * ((c - p) / p))))
           \<and> (p \<noteq> 0 \<and> th_type t = Short \<longrightarrow>
                 calcProfitLoss t = Some (Num (v * l * ((p - c) / p)))))
       \<and> (\<forall>r. calcProfitLoss t = Some r \<longrightarrow> isFinite r)"
proof (intro conjI allI impI)
  assume "closePrice t = None"
  then show "calcProfitLoss t = None" by (simp add: calcProfitLoss_def)
next
  fix c assume "closePrice t = Some (Num c)" and "p = 0"
  then show "calcProfitLoss t = None"
    using assms by (simp add: calcProfitLoss_def Let_def js_mul_not_finite)
next
  fix c assume "closePrice t = Some (Num c)" and "p \<noteq> 0 \<and> th_type t = Long"
  then show "calcProfitLoss t = Some (Num (v * l * ((c - p) / p)))"
    using assms by (simp add: calcProfitLoss_def Let_def)
next
  fix c assume "closePrice t = Some (Num c)" and "p \<noteq> 0 \<and> th_type t = Short"
  then show "calcProfitLoss t = Some (Num (v * l * ((p - c) / p)))"
    using assms by (simp add: calcProfitLoss_def Let_def)
next
  fix r assume "calcProfitLoss t = Some r"
  then show "isFinite r" by (rule calcProfitLoss_finite)
qed

text \<open>
  The scenarios of the specification: long 100 to 110 and short 100 to 90 both give 1,
  an open trade gives no result, and so does an open price of zero.
\<close>

theorem calcProfitLoss_formula_witness:
  "calcProfitLoss (scenarioTrade Long (Num 100) (Some (Num 110))) = Some (Num 1)
 \<and> calcProfitLoss (scenarioTrade Short (Num 100) (Some (Num 90))) = Some (Num 1)
 \<and> calcProfitLoss (scenarioTrade Long (Num 100) None) = None
 \<and> calcProfitLoss (scenarioTrade Long (Num 0) (Some (Num 110))) = None"
  using calcProfitLoss_formula [of "scenarioTrade Long (Num 100) (Some (Num 110))" 100 2 5]
        calcProfitLoss_formula [of "scenarioTrade Short (Num 100) (Some (Num 90))" 100 2 5]
        calcProfitLoss_formula [of "scenarioTrade Long (Num 100) None" 100 2 5]
        calcProfitLoss_formula [of "scenarioTrade Long (Num 0) (Some (Num 110))" 0 2 5]
  by (simp add: scenarioTrade_def)

text \<open>
  Claim C9. The preview of the close dialog, on the trade \<open>ct\<close> and the text \<open>s\<close> of
  the price field, is the calculator's result for \<open>ct\<close> with its close price set to
  the number that \<open>s\<close> converts to; a blank or non-numeric text is no provisional
  price, and the preview is then absent.
\<close>

theorem tempProfit_is_calcProfitLoss:
  "tempProfit toNumber (Some ct) s =
     (if isNaN (toNumber s) \<or> trim s = [] then None
      else calcProfitLoss (ct\<lparr>closePrice := Some (toNumber s)\<rparr>))"
  by (simp add: tempProfit_def calcProfitLoss_def Let_def)

theorem tempProfit_is_calcProfitLoss_witness:
  "tempProfit exampleNumber (Some (scenarioTrade Long (Num 100) None)) ''110''
     = calcProfitLoss (scenarioTrade Long (Num 100) (Some (Num 110)))
 \<and> tempProfit exampleNumber (Some (scenarioTrade Long (Num 100) None)) ''  '' = None"
  using tempProfit_is_calcProfitLoss [of exampleNumber "scenarioTrade Long (Num 100) None" "''110''"]
        tempProfit_is_calcProfitLoss [of exampleNumber "scenarioTrade Long (Num 100) None" "''  ''"]
  by (simp add: scenarioTrade_def exampleNumber_def trim_def is_space_def)

section \<open>Properties of the rounding\<close>

text \<open>
  \<^const>\<open>floorLog2\<close> is the exponent of the leading bit; \<^const>\<open>round64\<close> returns a
  value \<open>m * 2 ^ e\<close> with \<open>m\<close> of at most 53 bits (or \<open>2 ^ 53\<close>, the first value of
  the next binade) that lies within half a unit in the last place of its argument.
\<close>

lemma roundHalfEven_nearest: "\<bar>of_int (roundHalfEven y) - y\<bar> \<le> 1 / 2"
proof -
  have "of_int \<lfloor>y\<rfloor> \<le> y" "y < of_int \<lfloor>y\<rfloor> + 1" by linarith+
  then show ?thesis
    unfolding roundHalfEven_def Let_def by (simp add: abs_if) linarith
qed

lemma bitlen_powi:
  fixes p :: int
  assumes "0 < p"
  shows "(2::rat) powi (bitlen p - 1) \<le> of_int p" and "of_int p < (2::rat) powi (bitlen p)"
proof -
  have b: "2 ^ nat (bitlen p - 1) \<le> p" "p < 2 ^ nat (bitlen p)"
    using bitlen_bounds [OF assms] by simp_all
  have pos: "1 \<le> bitlen p" using assms by (auto simp: bitlen_alt_def)
  have "(2::rat) powi (bitlen p - 1) = 2 ^ nat (bitlen p - 1)"
    using pos by (simp add: power_int_def)
  also have "\<dots> = of_int (2 ^ nat (bitlen p - 1))" by simp
  also have "\<dots> \<le> of_int p" using b(1) by (simp only: of_int_le_iff)
  finally show "(2::rat) powi (bitlen p - 1) \<le> of_int p" .
  have "of_int p < (of_int (2 ^ nat (bitlen p)) :: rat)" using b(2) by (simp only: of_int_less_iff)
  also have "\<dots> = 2 powi (bitlen p)" using pos by (simp add: power_int_def)
  finally show "of_int p < (2::rat) powi (bitlen p)" .
qed

lemma floorLog2_bounds:
  assumes "0 < x"
  shows "2 powi (floorLog2 x) \<le> x" and "x < 2 powi (floorLog2 x + 1)"
proof -
  obtain p q where pq: "quotient_of x = (p, q)" by (cases "quotient_of x")
  have q: "0 < q" using quotient_of_denom_pos [OF pq] .
  have x: "x = of_int p / of_int q" using quotient_of_div [OF pq] .
  have p: "0 < p" using assms q x by (simp add: zero_less_divide_iff)
  let ?k = "bitlen p - bitlen q"
  have up: "x < (2::rat) powi (?k + 1)"
  proof -
    have "x * of_int q = of_int p" using x q by simp
    also have "\<dots> < 2 powi (bitlen p)" by (rule bitlen_powi(2) [OF p])
    also have "\<dots> = (2::rat) powi (?k + 1) * 2 powi (bitlen q - 1)"
      by (simp flip: power_int_add)
    also have "\<dots> \<le> 2 powi (?k + 1) * of_int q"
      using bitlen_powi(1) [OF q] by (intro mult_left_mono) simp_all
    finally show ?thesis using q by simp
  qed
  have low: "(2::rat) powi (?k - 1) \<le> x"
  proof -
    have "(2::rat) powi (?k - 1) * of_int q \<le> 2 powi (?k - 1) * 2 powi (bitlen q)"
      using bitlen_powi(2) [OF q] by (intro mult_left_mono) simp_all
    also have "\<dots> = 2 powi (bitlen p - 1)"
      by (simp flip: power_int_add)
    also have "\<dots> \<le> of_int p" by (rule bitlen_powi(1) [OF p])
    also have "\<dots> = x * of_int q" using x q by simp
    finally show ?thesis using q by simp
  qed
  show "2 powi (floorLog2 x) \<le> x"
    using low by (simp add: floorLog2_def pq Let_def)
  show "x < 2 powi (floorLog2 x + 1)"
    using up by (auto simp add: floorLog2_def pq Let_def not_le)
qed

lemma round64_nearest:
  assumes "x \<noteq> 0"
  shows "\<bar>round64 x - x\<bar> \<le> 2 powi (max (floorLog2 \<bar>x\<bar> - 52) (- 1074)) / 2"
proof -
  let ?e = "max (floorLog2 \<bar>x\<bar> - 52) (- 1074)"
  let ?u = "(2::rat) powi ?e"
  let ?m = "roundHalfEven (\<bar>x\<bar> / ?u)"
  have u: "0 < ?u" by simp
  have r: "round64 x = sgn x * of_int ?m * ?u"
    using assms by (simp add: round64_def Let_def)
  have xs: "x = sgn x * \<bar>x\<bar>" by (simp add: abs_sgn mult.commute flip: mult_sgn_abs)
  have "round64 x - x = sgn x * (of_int ?m * ?u - \<bar>x\<bar>)"
    unfolding r by (subst (2) xs) (simp add: algebra_simps)
  then have "\<bar>round64 x - x\<bar> = \<bar>sgn x * (of_int ?m * ?u - \<bar>x\<bar>)\<bar>"
    by simp
  also have "\<dots> = \<bar>of_int ?m * ?u - \<bar>x\<bar>\<bar>"
    using assms by (simp add: abs_mult abs_sgn_eq)
  also have "\<dots> = \<bar>of_int ?m - \<bar>x\<bar> / ?u\<bar> * ?u"
  proof -
    have "\<bar>x\<bar> / ?u * ?u = \<bar>x\<bar>"
      using u by simp
    then have "of_int ?m * ?u - \<bar>x\<bar> = (of_int ?m - \<bar>x\<bar> / ?u) * ?u"
      by (simp only: left_diff_distrib)
    then have "\<bar>of_int ?m * ?u - \<bar>x\<bar>\<bar> = \<bar>of_int ?m - \<bar>x\<bar> / ?u\<bar> * \<bar>?u\<bar>"
      by (simp only: abs_mult)
    also have "\<bar>?u\<bar> = ?u" using u by (simp only: abs_of_pos)
    finally show ?thesis .
  qed
  also have "\<dots> \<le> 1 / 2 * ?u"
    using roundHalfEven_nearest [of "\<bar>x\<bar> / ?u"] u by (intro mult_right_mono) simp_all
  finally show ?thesis by simp
qed

lemma round64_significand:
  assumes "x \<noteq> 0"
  shows "0 \<le> roundHalfEven (\<bar>x\<bar> / 2 powi (max (floorLog2 \<bar>x\<bar> - 52) (- 1074)))"
    and "roundHalfEven (\<bar>x\<bar> / 2 powi (max (floorLog2 \<bar>x\<bar> - 52) (- 1074))) \<le> 2 ^ 53"
proof -
  let ?e = "max (floorLog2 \<bar>x\<bar> - 52) (- 1074)"
  let ?y = "\<bar>x\<bar> / (2::rat) powi ?e"
  have pos: "0 < \<bar>x\<bar>" using assms by simp
  have y0: "0 \<le> ?y" by simp
  have "\<bar>x\<bar> < 2 powi (floorLog2 \<bar>x\<bar> + 1)" by (rule floorLog2_bounds(2) [OF pos])
  also have "\<dots> \<le> (2::rat) powi (?e + 53)" by (intro power_int_increasing) simp_all
  also have "\<dots> = 2 powi ?e * 2 ^ 53" by (simp add: power_int_add)
  finally have y53: "?y < 2 ^ 53" by (simp add: divide_less_eq mult.commute)
  have near: "\<bar>of_int (roundHalfEven ?y) - ?y\<bar> \<le> 1 / 2" by (rule roundHalfEven_nearest)
  have "- 1 < (of_int (roundHalfEven ?y) :: rat)" using near y0 by linarith
  then show "0 \<le> roundHalfEven ?y" by linarith
  have "(of_int (roundHalfEven ?y) :: rat) < 2 ^ 53 + 1" using near y53 by linarith
  then have "(of_int (roundHalfEven ?y) :: rat) < of_int (2 ^ 53 + 1)" by simp
  then have "roundHalfEven ?y < 2 ^ 53 + 1" by (simp only: of_int_less_iff)
  then show "roundHalfEven ?y \<le> 2 ^ 53" by simp
qed

lemma fsub_fadd: "fsub a b = fadd a (- b)"
  by (simp add: fsub_def fadd_def)

lemma runningSum_exact: "noRounding s qs \<Longrightarrow> runningSum s qs = s + sum_list qs"
  by (induction qs arbitrary: s) (simp_all add: add.assoc)

lemma runningNet_exact: "exactNet qs \<Longrightarrow> runningNet qs = sum_list qs"
  by (cases qs) (simp_all add: exactNet_def runningNet_def runningSum_exact)

section \<open>Sums, sorting and keyed loops\<close>

lemma fold_add_sum_list:
  "fold (\<lambda>item sum. sum + f item) xs (a::rat) = a + sum_list (map f xs)"
  by (induction xs arbitrary: a) (simp_all add: add.assoc)

lemma reduceSum_sum_list: "reduceSum f xs = sum_list (map f xs)"
  by (simp add: reduceSum_def fold_add_sum_list)

lemma sum_list_map_filter_mset:
  "sum_list (map f (filter P xs)) = sum_mset (image_mset f (filter_mset P (mset xs)))"
  by (induction xs) simp_all

lemma sum_list_filter_perm:
  fixes f :: "'a \<Rightarrow> rat"
  shows "mset xs = mset ys \<Longrightarrow> sum_list (map f (filter P xs)) = sum_list (map f (filter P ys))"
  unfolding sum_list_map_filter_mset by simp

lemma sum_list_perm:
  fixes f :: "'a \<Rightarrow> rat"
  shows "mset xs = mset ys \<Longrightarrow> sum_list (map f xs) = sum_list (map f ys)"
  using sum_list_filter_perm [of xs ys f "\<lambda>_. True"] by simp

lemma sum_list_pos_iff:
  fixes f :: "'a \<Rightarrow> rat"
  assumes "\<forall>x \<in> set xs. 0 < f x"
  shows "0 < sum_list (map f xs) \<longleftrightarrow> xs \<noteq> []"
proof (cases xs)
  case Nil
  then show ?thesis by simp
next
  case (Cons x rest)
  have "0 \<le> sum_list (map f rest)"
    using assms Cons by (intro sum_list_nonneg) (auto intro: less_imp_le)
  moreover have "0 < f x" using assms Cons by simp
  ultimately show ?thesis using Cons by simp
qed

lemma mset_insertBy: "mset (insertBy c x xs) = add_mset x (mset xs)"
  by (induction xs) simp_all

lemma mset_sortBy: "mset (sortBy c xs) = mset xs"
  by (induction xs) (simp_all add: sortBy_def mset_insertBy)

lemma set_sortBy: "set (sortBy c xs) = set xs"
  using mset_sortBy [of c xs] by (metis set_mset_mset)

lemma find_Some_member: "find P xs = Some x \<Longrightarrow> x \<in> set xs"
  by (induction xs) (auto split: if_splits)

lemma find_unique:
  assumes "x \<in> set xs" and "P x" and "\<And>y. y \<in> set xs \<Longrightarrow> P y \<Longrightarrow> y = x"
  shows "find P xs = Some x"
proof -
  obtain y where y: "find P xs = Some y"
    using assms(1,2) by (cases "find P xs") (auto simp: find_None_iff)
  have "y \<in> set xs" using y by (rule find_Some_member)
  moreover have "P y" using y by (induction xs) (auto split: if_splits)
  ultimately show ?thesis using assms(3) y by simp
qed

lemma map_indexed_proj:
  assumes "\<And>item index. g (F item index) = f item"
  shows "map g (map (\<lambda>(item, index). F item index) (zip xs [0 ..< length xs])) = map f xs"
  by (rule nth_equalityI) (simp_all add: assms)

lemma keyedFold_Nil [simp]: "keyedFold f [] eo = eo"
  by (simp add: keyedFold_def)

lemma keyedFold_Cons [simp]: "keyedFold f (tx # txs) eo = keyedFold f txs (Some (f tx eo))"
  by (simp add: keyedFold_def)

lemma map_of_fold_keyedStep:
  "map_of (fold (keyedStep key f) txs m) n =
     keyedFold f (filter (\<lambda>tx. key tx = n) txs) (map_of m n)"
proof (induction txs arbitrary: m)
  case Nil
  show ?case by simp
next
  case (Cons tx txs)
  show ?case
    by (simp add: Cons.IH) (simp add: keyedStep_def update_conv')
qed

lemma keys_fold_keyedStep:
  "fst ` set (fold (keyedStep key f) txs m) = fst ` set m \<union> key ` set txs"
proof (induction txs arbitrary: m)
  case Nil
  show ?case by simp
next
  case (Cons tx txs)
  show ?case
    by (simp add: Cons.IH) (auto simp: keyedStep_def dom_update)
qed

lemma distinct_fold_keyedStep:
  "distinct (map fst m) \<Longrightarrow> distinct (map fst (fold (keyedStep key f) txs m))"
  by (induction txs arbitrary: m) (simp_all add: keyedStep_def distinct_update)

section \<open>The grouping loop\<close>

lemma groupStep_keyedStep: "groupStep dateParse = keyedStep asset_name (entryStep dateParse)"
  by (rule ext, rule ext)
     (simp add: groupStep_def keyedStep_def entryStep_def Let_def split: option.split)

lemma entryStep_Some:
  "entry_name (entryStep dateParse tx (Some e)) = entry_name e"
  "totalBuyQty (entryStep dateParse tx (Some e)) =
     totalBuyQty e + (if asset_type tx = Buy then quantity tx else 0)"
  "totalBuyCost (entryStep dateParse tx (Some e)) =
     totalBuyCost e + (if asset_type tx = Buy then quantity tx * pricePerCoin tx else 0)"
  "netQty (entryStep dateParse tx (Some e)) = netQty e + signedQuantity tx"
  "latestTransaction (entryStep dateParse tx (Some e)) =
     (if replacesLatest dateParse tx (latestTransaction e) then tx else latestTransaction e)"
  by (simp_all add: entryStep_def signedQuantity_def)

lemma entryStep_None:
  "entry_name (entryStep dateParse tx None) = asset_name tx"
  "totalBuyQty (entryStep dateParse tx None) = (if asset_type tx = Buy then quantity tx else 0)"
  "totalBuyCost (entryStep dateParse tx None) =
     (if asset_type tx = Buy then quantity tx * pricePerCoin tx else 0)"
  "netQty (entryStep dateParse tx None) = signedQuantity tx"
  "latestTransaction (entryStep dateParse tx None) = tx"
  by (simp_all add: entryStep_def signedQuantity_def)

lemma entryFold_Some:
  "\<exists>e'. keyedFold (entryStep dateParse) txs (Some e) = Some e'
      \<and> entry_name e' = entry_name e
      \<and> totalBuyQty e' = totalBuyQty e + sum_list (map quantity (filter (\<lambda>tx. asset_type tx = Buy) txs))
      \<and> totalBuyCost e' = totalBuyCost e
           + sum_list (map (\<lambda>tx. quantity tx * pricePerCoin tx) (filter (\<lambda>tx. asset_type tx = Buy) txs))
      \<and> netQty e' = netQty e + sum_list (map signedQuantity txs)
      \<and> latestTransaction e' = latestFold dateParse txs (latestTransaction e)"
proof (induction txs arbitrary: e)
  case Nil
  show ?case by simp
next
  case (Cons tx txs)
  obtain e' where e': "keyedFold (entryStep dateParse) txs (Some (entryStep dateParse tx (Some e))) = Some e'"
      "entry_name e' = entry_name (entryStep dateParse tx (Some e))"
      "totalBuyQty e' = totalBuyQty (entryStep dateParse tx (Some e)) + sum_list (map quantity (filter (\<lambda>tx. asset_type tx = Buy) txs))"
      "totalBuyCost e' = totalBuyCost (entryStep dateParse tx (Some e))
           + sum_list (map (\<lambda>tx. quantity tx * pricePerCoin tx) (filter (\<lambda>tx. asset_type tx = Buy) txs))"
      "netQty e' = netQty (entryStep dateParse tx (Some e)) + sum_list (map signedQuantity txs)"
      "latestTransaction e' = latestFold dateParse txs (latestTransaction (entryStep dateParse tx (Some e)))"
    using Cons.IH [of "entryStep dateParse tx (Some e)"] by blast
  show ?case
    using e' by (simp add: entryStep_Some)
qed

lemma entryFold_None:
  assumes "txs \<noteq> []"
  shows "\<exists>e'. keyedFold (entryStep dateParse) txs None = Some e'
      \<and> entry_name e' = asset_name (hd txs)
      \<and> totalBuyQty e' = sum_list (map quantity (filter (\<lambda>tx. asset_type tx = Buy) txs))
      \<and> totalBuyCost e' =
           sum_list (map (\<lambda>tx. quantity tx * pricePerCoin tx) (filter (\<lambda>tx. asset_type tx = Buy) txs))
      \<and> netQty e' = sum_list (map signedQuantity txs)
      \<and> latestTransaction e' = latestFold dateParse (tl txs) (hd txs)"
proof (cases txs)
  case Nil
  with assms show ?thesis by simp
next
  case (Cons tx rest)
  show ?thesis
    using entryFold_Some [of dateParse rest "entryStep dateParse tx None"]
    by (auto simp: Cons entryStep_None)
qed

lemma transactionsOf_nonempty: "n \<in> asset_name ` set assets \<Longrightarrow> transactionsOf n assets \<noteq> []"
  by (auto simp: transactionsOf_def filter_empty_conv)

lemma hd_transactionsOf:
  assumes "n \<in> asset_name ` set assets"
  shows "asset_name (hd (transactionsOf n assets)) = n"
proof -
  have "hd (transactionsOf n assets) \<in> set (transactionsOf n assets)"
    using transactionsOf_nonempty [OF assms] by simp
  then show ?thesis by (simp add: transactionsOf_def)
qed

lemma set_transactionsOf:
  assumes "n \<in> asset_name ` set assets"
  shows "set (hd (transactionsOf n assets) # tl (transactionsOf n assets)) =
         {tx \<in> set assets. asset_name tx = n}"
  using transactionsOf_nonempty [OF assms] by (auto simp: transactionsOf_def)

lemma map_of_groupEntries:
  "map_of (groupEntries dateParse assets) n =
     keyedFold (entryStep dateParse) (transactionsOf n assets) None"
  by (simp add: groupEntries_def groupStep_keyedStep map_of_fold_keyedStep transactionsOf_def)

lemma groupEntries_lookup:
  assumes "n \<in> asset_name ` set assets"
  shows "\<exists>e. map_of (groupEntries dateParse assets) n = Some e
      \<and> entry_name e = n
      \<and> totalBuyQty e = sum_list (map quantity (buysOf n assets))
      \<and> totalBuyCost e = sum_list (map (\<lambda>tx. quantity tx * pricePerCoin tx) (buysOf n assets))
      \<and> netQty e = sum_list (map signedQuantity (transactionsOf n assets))
      \<and> latestTransaction e =
          latestFold dateParse (tl (transactionsOf n assets)) (hd (transactionsOf n assets))"
proof -
  have buys: "filter (\<lambda>tx. asset_type tx = Buy) (transactionsOf n assets) = buysOf n assets"
    by (simp add: transactionsOf_def buysOf_def)
  show ?thesis
    using entryFold_None [OF transactionsOf_nonempty [OF assms], of dateParse]
    by (simp add: map_of_groupEntries buys hd_transactionsOf [OF assms])
qed

lemma distinct_groupEntries: "distinct (map fst (groupEntries dateParse assets))"
  by (simp add: groupEntries_def groupStep_keyedStep distinct_fold_keyedStep)

lemma keys_groupEntries: "fst ` set (groupEntries dateParse assets) = asset_name ` set assets"
  by (simp add: groupEntries_def groupStep_keyedStep keys_fold_keyedStep)

lemma groupEntries_member:
  assumes "(k, e) \<in> set (groupEntries dateParse assets)"
  shows "k \<in> asset_name ` set assets"
    and "map_of (groupEntries dateParse assets) k = Some e"
    and "entry_name e = k"
proof -
  show k: "k \<in> asset_name ` set assets"
    using assms keys_groupEntries [of dateParse assets] by force
  show m: "map_of (groupEntries dateParse assets) k = Some e"
    using assms distinct_groupEntries by simp
  show "entry_name e = k"
    using groupEntries_lookup [OF k, of dateParse] m by auto
qed

lemma signedQuantity_split:
  "sum_list (map signedQuantity (transactionsOf n assets)) =
     sum_list (map quantity (buysOf n assets)) - sum_list (map quantity (sellsOf n assets))"
proof (induction assets)
  case Nil
  show ?case by (simp add: transactionsOf_def buysOf_def sellsOf_def)
next
  case (Cons tx assets)
  then show ?case
    by (cases "asset_type tx")
       (simp_all add: transactionsOf_def buysOf_def sellsOf_def signedQuantity_def)
qed

section \<open>The portfolio list and the detail summary\<close>

lemma gp_name_toGroupedPortfolio [simp]:
  "gp_name (toGroupedPortfolio assets e) = entry_name e"
  by (simp add: toGroupedPortfolio_def Let_def)

lemma set_groupedPortfolios:
  "set (groupedPortfolios dateParse assets) =
     toGroupedPortfolio assets ` snd ` set (groupEntries dateParse assets)"
  by (simp add: groupedPortfolios_def set_sortBy image_image)

lemma portfolioOf_Some:
  assumes "map_of (groupEntries dateParse assets) n = Some e"
  shows "portfolioOf dateParse assets n = Some (toGroupedPortfolio assets e)"
  unfolding portfolioOf_def
proof (rule find_unique)
  have mem: "(n, e) \<in> set (groupEntries dateParse assets)"
    using assms by (rule map_of_SomeD)
  then have "e \<in> snd ` set (groupEntries dateParse assets)"
    by force
  then show "toGroupedPortfolio assets e \<in> set (groupedPortfolios dateParse assets)"
    by (simp add: set_groupedPortfolios)
  show "gp_name (toGroupedPortfolio assets e) = n"
    using groupEntries_member(3) [OF mem] by simp
  fix g assume "g \<in> set (groupedPortfolios dateParse assets)" and gn: "gp_name g = n"
  then obtain k e' where ke: "(k, e') \<in> set (groupEntries dateParse assets)"
      and g: "g = toGroupedPortfolio assets e'"
    by (auto simp: set_groupedPortfolios)
  have "k = n" using groupEntries_member(3) [OF ke] gn g by simp
  then have "e' = e" using groupEntries_member(2) [OF ke] assms by simp
  then show "g = toGroupedPortfolio assets e" using g by simp
qed

lemma groupedPortfolios_member:
  "g \<in> set (groupedPortfolios dateParse assets) \<longleftrightarrow>
     gp_name g \<in> asset_name ` set assets \<and> portfolioOf dateParse assets (gp_name g) = Some g"
proof
  assume "g \<in> set (groupedPortfolios dateParse assets)"
  then obtain k e where ke: "(k, e) \<in> set (groupEntries dateParse assets)"
      and g: "g = toGroupedPortfolio assets e"
    by (auto simp: set_groupedPortfolios)
  have "gp_name g = k" using groupEntries_member(3) [OF ke] g by simp
  then show "gp_name g \<in> asset_name ` set assets \<and> portfolioOf dateParse assets (gp_name g) = Some g"
    using groupEntries_member(1,2) [OF ke] portfolioOf_Some [of dateParse assets k e] g by simp
next
  assume "gp_name g \<in> asset_name ` set assets \<and> portfolioOf dateParse assets (gp_name g) = Some g"
  then show "g \<in> set (groupedPortfolios dateParse assets)"
    by (auto simp: portfolioOf_def dest: find_Some_member)
qed

lemma toGroupedPortfolio_fields:
  "avgBuyPrice (toGroupedPortfolio assets e) =
     (if 0 < totalBuyQty e then Some (totalBuyCost e / totalBuyQty e) else None)"
  "holdingsQuantity (toGroupedPortfolio assets e) = netQty e"
  "currentPrice (toGroupedPortfolio assets e) = pricePerCoin (latestTransaction e)"
  "holdingsValue (toGroupedPortfolio assets e) = netQty e * pricePerCoin (latestTransaction e)"
  "profitValue (toGroupedPortfolio assets e) =
     (case avgBuyPrice (toGroupedPortfolio assets e) of
        None \<Rightarrow> None
      | Some a \<Rightarrow>
          if 0 < a \<and> 0 < sum_list (map quantity (sellsOf (entry_name e) assets))
          then Some (sum_list (map (\<lambda>tx. (pricePerCoin tx - a) * quantity tx)
                       (sellsOf (entry_name e) assets)))
          else None)"
  by (simp_all add: toGroupedPortfolio_def Let_def reduceSum_sum_list sellsOf_def)

lemma portfolioOf_avgBuyPrice:
  assumes "n \<in> asset_name ` set assets" and "portfolioOf dateParse assets n = Some g"
  shows "avgBuyPrice g =
     (if 0 < sum_list (map quantity (buysOf n assets))
      then Some (sum_list (map (\<lambda>tx. quantity tx * pricePerCoin tx) (buysOf n assets))
                 / sum_list (map quantity (buysOf n assets)))
      else None)"
proof -
  obtain e where e: "map_of (groupEntries dateParse assets) n = Some e"
      and qty: "totalBuyQty e = sum_list (map quantity (buysOf n assets))"
      and cost: "totalBuyCost e = sum_list (map (\<lambda>tx. quantity tx * pricePerCoin tx) (buysOf n assets))"
    using groupEntries_lookup [OF assms(1), of dateParse] by blast
  have "g = toGroupedPortfolio assets e"
    using portfolioOf_Some [OF e] assms(2) by simp
  then show ?thesis
    by (simp add: toGroupedPortfolio_fields(1) qty cost)
qed

lemma mset_detailTransactions:
  "mset (detailTransactions dateParse n assets) = mset (transactionsOf n assets)"
  by (simp add: detailTransactions_def transactionsOf_def mset_sortBy)

lemma buys_detailTransactions:
  fixes f :: "Asset \<Rightarrow> rat"
  shows "sum_list (map f (filter (\<lambda>tx. asset_type tx = Buy) (detailTransactions dateParse n assets)))
     = sum_list (map f (buysOf n assets))"
proof -
  have "filter (\<lambda>tx. asset_type tx = Buy) (transactionsOf n assets) = buysOf n assets"
    by (simp add: transactionsOf_def buysOf_def)
  then show ?thesis
    using sum_list_filter_perm [OF mset_detailTransactions, of f "\<lambda>tx. asset_type tx = Buy" dateParse n assets]
    by simp
qed

lemma sells_detailTransactions:
  fixes f :: "Asset \<Rightarrow> rat"
  shows "sum_list (map f (filter (\<lambda>tx. asset_type tx = Sell) (detailTransactions dateParse n assets)))
     = sum_list (map f (sellsOf n assets))"
proof -
  have "filter (\<lambda>tx. asset_type tx = Sell) (transactionsOf n assets) = sellsOf n assets"
    by (simp add: transactionsOf_def sellsOf_def)
  then show ?thesis
    using sum_list_filter_perm [OF mset_detailTransactions, of f "\<lambda>tx. asset_type tx = Sell" dateParse n assets]
    by simp
qed

lemma all_detailTransactions:
  fixes f :: "Asset \<Rightarrow> rat"
  shows "sum_list (map f (detailTransactions dateParse n assets)) = sum_list (map f (transactionsOf n assets))"
  by (rule sum_list_perm) (rule mset_detailTransactions)

lemma detailSummary_fields:
  "detailAvgBuyPrice (detailSummary (detailTransactions dateParse n assets)) =
     (if 0 < sum_list (map quantity (buysOf n assets))
      then Some (sum_list (map (\<lambda>tx. quantity tx * pricePerCoin tx) (buysOf n assets))
                 / sum_list (map quantity (buysOf n assets)))
      else None)"
  "netQuantity (detailSummary (detailTransactions dateParse n assets)) =
     sum_list (map signedQuantity (transactionsOf n assets))"
  "detailTotalProfit (detailSummary (detailTransactions dateParse n assets)) =
     (case detailAvgBuyPrice (detailSummary (detailTransactions dateParse n assets)) of
        None \<Rightarrow> 0
      | Some a \<Rightarrow>
          if 0 < a then sum_list (map (\<lambda>tx. (pricePerCoin tx - a) * quantity tx) (sellsOf n assets))
          else 0)"
proof -
  have signed: "(\<lambda>tx. if asset_type tx = Buy then quantity tx else - quantity tx) = signedQuantity"
    by (rule ext) (simp add: signedQuantity_def)
  show "detailAvgBuyPrice (detailSummary (detailTransactions dateParse n assets)) =
     (if 0 < sum_list (map quantity (buysOf n assets))
      then Some (sum_list (map (\<lambda>tx. quantity tx * pricePerCoin tx) (buysOf n assets))
                 / sum_list (map quantity (buysOf n assets)))
      else None)"
    by (simp add: detailSummary_def Let_def reduceSum_sum_list buys_detailTransactions)
  show "netQuantity (detailSummary (detailTransactions dateParse n assets)) =
     sum_list (map signedQuantity (transactionsOf n assets))"
    by (simp add: detailSummary_def Let_def reduceSum_sum_list signed all_detailTransactions)
  show "detailTotalProfit (detailSummary (detailTransactions dateParse n assets)) =
     (case detailAvgBuyPrice (detailSummary (detailTransactions dateParse n assets)) of
        None \<Rightarrow> 0
      | Some a \<Rightarrow>
          if 0 < a then sum_list (map (\<lambda>tx. (pricePerCoin tx - a) * quantity tx) (sellsOf n assets))
          else 0)"
    by (simp add: detailSummary_def Let_def reduceSum_sum_list buys_detailTransactions
        sells_detailTransactions)
qed

text \<open>
  Claim C1, as amended. Let every transaction have a positive quantity, and let \<open>n\<close>
  be an asset name of the list. In the portfolio list the realized profit of \<open>n\<close> is
  present exactly when the average buy price is defined and positive and \<open>n\<close> has a
  sell, and it is then the sum over the sells of \<open>n\<close> of
  \<open>(price - average) * quantity\<close>; it is absent otherwise. The detail summary of
  \<open>n\<close> reports that same sum when the average buy price is defined and positive, and
  the number zero otherwise: with no sell it reports zero, not an absent value.
\<close>

theorem realizedProfit_per_view:
  assumes "\<forall>tx \<in> set assets. 0 < quantity tx" and "n \<in> asset_name ` set assets"
  shows "\<exists>g. portfolioOf dateParse assets n = Some g
      \<and> profitValue g =
          (case avgBuyPrice g of
             None \<Rightarrow> None
           | Some a \<Rightarrow>
               if 0 < a \<and> sellsOf n assets \<noteq> []
               then Some (sum_list (map (\<lambda>tx. (pricePerCoin tx - a) * quantity tx) (sellsOf n assets)))
               else None)
      \<and> detailTotalProfit (detailSummary (detailTransactions dateParse n assets)) =
          (case avgBuyPrice g of
             None \<Rightarrow> 0
           | Some a \<Rightarrow>
               if 0 < a
               then sum_list (map (\<lambda>tx. (pricePerCoin tx - a) * quantity tx) (sellsOf n assets))
               else 0)"
proof -
  obtain e where e: "map_of (groupEntries dateParse assets) n = Some e"
      and name: "entry_name e = n"
      and qty: "totalBuyQty e = sum_list (map quantity (buysOf n assets))"
      and cost: "totalBuyCost e = sum_list (map (\<lambda>tx. quantity tx * pricePerCoin tx) (buysOf n assets))"
    using groupEntries_lookup [OF assms(2), of dateParse] by blast
  have "\<forall>tx \<in> set (sellsOf n assets). 0 < quantity tx"
    using assms(1) by (simp add: sellsOf_def)
  then have pos: "0 < sum_list (map quantity (sellsOf n assets)) \<longleftrightarrow> sellsOf n assets \<noteq> []"
    by (rule sum_list_pos_iff)
  have avg: "detailAvgBuyPrice (detailSummary (detailTransactions dateParse n assets))
      = avgBuyPrice (toGroupedPortfolio assets e)"
    by (simp add: toGroupedPortfolio_fields(1) detailSummary_fields(1) qty cost)
  have profit: "profitValue (toGroupedPortfolio assets e) =
      (case avgBuyPrice (toGroupedPortfolio assets e) of
         None \<Rightarrow> None
       | Some a \<Rightarrow>
           if 0 < a \<and> sellsOf n assets \<noteq> []
           then Some (sum_list (map (\<lambda>tx. (pricePerCoin tx - a) * quantity tx) (sellsOf n assets)))
           else None)"
    unfolding toGroupedPortfolio_fields(5) name pos ..
  show ?thesis
    using portfolioOf_Some [OF e] profit detailSummary_fields(3) [of dateParse n assets]
    by (simp add: avg)
qed

text \<open>
  Scenario B has the realized profit 10000 in both views; scenario A, which has no
  sell, has none in the portfolio list.
\<close>

theorem realizedProfit_per_view_witness:
  "(\<exists>g. portfolioOf exampleDateParse scenarioB ''BTC'' = Some g \<and> profitValue g = Some 10000
        \<and> detailTotalProfit (detailSummary (detailTransactions exampleDateParse ''BTC'' scenarioB))
            = 10000)
 \<and> (\<exists>g. portfolioOf exampleDateParse scenarioA ''BTC'' = Some g \<and> profitValue g = None)"
  using realizedProfit_per_view [of scenarioB "''BTC''" exampleDateParse]
        portfolioOf_avgBuyPrice [of "''BTC''" scenarioB exampleDateParse]
        realizedProfit_per_view [of scenarioA "''BTC''" exampleDateParse]
  by (auto simp add: ex_defs buysOf_def sellsOf_def split: option.splits)

text \<open>
  Claim C1 as stated fails on the detail summary: scenario A has no sell, and its
  realized profit there is the number zero.
\<close>

theorem detail_profit_zero_without_sells:
  "sellsOf ''BTC'' scenarioA = []
 \<and> detailTotalProfit (detailSummary (detailTransactions exampleDateParse ''BTC'' scenarioA)) = 0
 \<and> totalProfitPercent (detailSummary (detailTransactions exampleDateParse ''BTC'' scenarioA)) = None"
  by (simp add: ex_defs model_defs)

text \<open>
  Claim C2. Let every transaction have a positive quantity, and let \<open>n\<close> be an asset
  name of the list. The average buy price of \<open>n\<close> is the total cost of its buys
  divided by their total quantity, it is undefined exactly when \<open>n\<close> has no buy, and
  the detail summary of \<open>n\<close> has the same average.
\<close>

theorem averageBuyPrice_from_buys:
  assumes "\<forall>tx \<in> set assets. 0 < quantity tx" and "n \<in> asset_name ` set assets"
  shows "\<exists>g. portfolioOf dateParse assets n = Some g
      \<and> avgBuyPrice g =
          (if buysOf n assets = [] then None
           else Some (sum_list (map (\<lambda>tx. quantity tx * pricePerCoin tx) (buysOf n assets))
                      / sum_list (map quantity (buysOf n assets))))
      \<and> (avgBuyPrice g = None \<longleftrightarrow> buysOf n assets = [])
      \<and> detailAvgBuyPrice (detailSummary (detailTransactions dateParse n assets)) = avgBuyPrice g"
proof -
  obtain e where e: "map_of (groupEntries dateParse assets) n = Some e"
      and qty: "totalBuyQty e = sum_list (map quantity (buysOf n assets))"
      and cost: "totalBuyCost e = sum_list (map (\<lambda>tx. quantity tx * pricePerCoin tx) (buysOf n assets))"
    using groupEntries_lookup [OF assms(2), of dateParse] by blast
  have "\<forall>tx \<in> set (buysOf n assets). 0 < quantity tx"
    using assms(1) by (simp add: buysOf_def)
  then have pos: "0 < sum_list (map quantity (buysOf n assets)) \<longleftrightarrow> buysOf n assets \<noteq> []"
    by (rule sum_list_pos_iff)
  show ?thesis
    using portfolioOf_Some [OF e] pos
    by (simp add: toGroupedPortfolio_fields detailSummary_fields qty cost)
qed

text \<open>Scenario B averages 15000; scenario F, which has only a sell, has no average.\<close>

theorem averageBuyPrice_from_buys_witness:
  "(\<exists>g. portfolioOf exampleDateParse scenarioB ''BTC'' = Some g \<and> avgBuyPrice g = Some 15000
        \<and> detailAvgBuyPrice (detailSummary (detailTransactions exampleDateParse ''BTC'' scenarioB))
            = Some 15000)
 \<and> (\<exists>g. portfolioOf exampleDateParse scenarioF ''ETH'' = Some g \<and> avgBuyPrice g = None)"
  using averageBuyPrice_from_buys [of scenarioB "''BTC''" exampleDateParse]
        averageBuyPrice_from_buys [of scenarioF "''ETH''" exampleDateParse]
  by (auto simp add: ex_defs buysOf_def)

subsection \<open>The net quantity in double precision\<close>

lemma sum_list_groupSigned: "sum_list (groupSigned n assets) = netOf n assets"
  by (simp add: groupSigned_def netOf_def signedQuantity_split)

lemma netOf_perm: "mset assets' = mset assets \<Longrightarrow> netOf n assets' = netOf n assets"
  by (simp add: netOf_def buysOf_def sellsOf_def sum_list_filter_perm [of assets' assets])

lemma groupStep64_keyedStep: "groupStep64 dateParse = keyedStep asset_name (entryStep64 dateParse)"
  by (rule ext, rule ext)
     (simp add: groupStep64_def keyedStep_def entryStep64_def Let_def split: option.split)

lemma netQty_entryStep64:
  "netQty (entryStep64 dateParse tx (Some e)) = fadd (netQty e) (signedQuantity tx)"
  "netQty (entryStep64 dateParse tx None) = signedQuantity tx"
  by (simp_all add: entryStep64_def signedQuantity_def fsub_fadd)

lemma entryFold64_Some:
  "\<exists>e'. keyedFold (entryStep64 dateParse) txs (Some e) = Some e'
      \<and> netQty e' = runningSum (netQty e) (map signedQuantity txs)"
proof (induction txs arbitrary: e)
  case Nil
  show ?case by simp
next
  case (Cons tx txs)
  show ?case
    using Cons.IH [of "entryStep64 dateParse tx (Some e)"]
    by (auto simp: netQty_entryStep64)
qed

lemma entryFold64_None:
  assumes "txs \<noteq> []"
  shows "\<exists>e'. keyedFold (entryStep64 dateParse) txs None = Some e'
      \<and> netQty e' = runningNet (map signedQuantity txs)"
proof (cases txs)
  case Nil
  with assms show ?thesis by simp
next
  case (Cons tx rest)
  show ?thesis
    using entryFold64_Some [of dateParse rest "entryStep64 dateParse tx None"]
    by (auto simp: Cons netQty_entryStep64 runningNet_def)
qed

lemma groupEntries64_lookup:
  assumes "n \<in> asset_name ` set assets"
  shows "\<exists>e. map_of (groupEntries64 dateParse assets) n = Some e
      \<and> netQty e = runningNet (groupSigned n assets)"
proof -
  have "map_of (groupEntries64 dateParse assets) n =
        keyedFold (entryStep64 dateParse) (transactionsOf n assets) None"
    by (simp add: groupEntries64_def groupStep64_keyedStep map_of_fold_keyedStep transactionsOf_def)
  then show ?thesis
    using entryFold64_None [OF transactionsOf_nonempty [OF assms], of dateParse]
    by (simp add: groupSigned_def)
qed

lemma fold_fadd_runningSum:
  "fold (\<lambda>tx sum. fadd sum (if asset_type tx = Buy then quantity tx else - quantity tx)) txs s
     = runningSum s (map signedQuantity txs)"
  by (induction txs arbitrary: s) (simp_all add: signedQuantity_def)

lemma netQuantity64_runningSum:
  "netQuantity64 txs = runningSum 0 (map signedQuantity txs)"
  by (simp add: netQuantity64_def fold_fadd_runningSum)

text \<open>
  Claim C3, as amended. For an asset name \<open>n\<close> of the list, the net quantity of
  \<open>n\<close>, which the portfolio list shows as its holdings quantity, is the running sum in
  list order of the quantities of \<open>n\<close>, a buy counting positive and a sell negative,
  each addition rounded to a double; the detail summary has the running sum from zero
  over its sorted transactions. Whenever no addition of the running sum rounds, the net
  quantity is the total quantity of the buys minus the total quantity of the sells, so
  two permutations of the list in which no addition rounds give the same value.
\<close>

theorem netQuantity_running_sum:
  assumes "n \<in> asset_name ` set assets" and "mset assets' = mset assets"
  shows "\<exists>e e'. map_of (groupEntries64 dateParse assets) n = Some e
      \<and> map_of (groupEntries64 dateParse assets') n = Some e'
      \<and> netQty e = runningNet (groupSigned n assets)
      \<and> netQty e' = runningNet (groupSigned n assets')
      \<and> (exactNet (groupSigned n assets) \<longrightarrow> netQty e = netOf n assets)
      \<and> (exactNet (groupSigned n assets) \<and> exactNet (groupSigned n assets') \<longrightarrow>
            netQty e' = netQty e)
      \<and> netQuantity64 (detailTransactions dateParse n assets) =
            runningSum 0 (map signedQuantity (detailTransactions dateParse n assets))
      \<and> (noRounding 0 (map signedQuantity (detailTransactions dateParse n assets)) \<longrightarrow>
            netQuantity64 (detailTransactions dateParse n assets) = netOf n assets)"
proof -
  have n': "n \<in> asset_name ` set assets'"
    using assms by (metis set_mset_mset)
  obtain e where e: "map_of (groupEntries64 dateParse assets) n = Some e"
      and net: "netQty e = runningNet (groupSigned n assets)"
    using groupEntries64_lookup [OF assms(1), of dateParse] by blast
  obtain e' where e': "map_of (groupEntries64 dateParse assets') n = Some e'"
      and net': "netQty e' = runningNet (groupSigned n assets')"
    using groupEntries64_lookup [OF n', of dateParse] by blast
  have exact: "netQty e = netOf n assets" if "exactNet (groupSigned n assets)"
    using that net by (simp add: runningNet_exact sum_list_groupSigned)
  have exact': "netQty e' = netOf n assets" if "exactNet (groupSigned n assets')"
    using that net' by (simp add: runningNet_exact sum_list_groupSigned netOf_perm [OF assms(2)])
  have detail: "netQuantity64 (detailTransactions dateParse n assets) = netOf n assets"
    if "noRounding 0 (map signedQuantity (detailTransactions dateParse n assets))"
  proof -
    have "netQuantity64 (detailTransactions dateParse n assets) =
          sum_list (map signedQuantity (detailTransactions dateParse n assets))"
      using that by (simp add: netQuantity64_runningSum runningSum_exact)
    also have "\<dots> = sum_list (groupSigned n assets)"
      by (simp add: all_detailTransactions groupSigned_def)
    finally show ?thesis by (simp add: sum_list_groupSigned)
  qed
  show ?thesis
    using e e' net net' exact exact' detail
    by (simp add: netQuantity64_runningSum)
qed

text \<open>
  In scenario B and in its reversal no addition rounds, and both hold one coin, as does
  the detail summary.
\<close>

lemma scenarioB_exact:
  "exactNet (groupSigned ''BTC'' scenarioB)"
  "exactNet (groupSigned ''BTC'' (rev scenarioB))"
  "noRounding 0 (map signedQuantity (detailTransactions exampleDateParse ''BTC'' scenarioB))"
  by code_simp+

theorem netQuantity_running_sum_witness:
  "\<exists>e e'. map_of (groupEntries64 exampleDateParse scenarioB) ''BTC'' = Some e
      \<and> map_of (groupEntries64 exampleDateParse (rev scenarioB)) ''BTC'' = Some e'
      \<and> netQty e = 1 \<and> netQty e' = 1
      \<and> netQuantity64 (detailTransactions exampleDateParse ''BTC'' scenarioB) = 1"
proof -
  have net: "netOf ''BTC'' scenarioB = 1"
    by (simp add: netOf_def buysOf_def sellsOf_def ex_defs)
  have name: "''BTC'' \<in> asset_name ` set scenarioB"
    by (simp add: ex_defs)
  show ?thesis
    using netQuantity_running_sum [OF name, of "rev scenarioB" exampleDateParse]
      scenarioB_exact net
    by auto
qed

text \<open>
  Claim C3 as stated fails: three buys of 0.1, 0.2 and 0.3 give the net quantity
  0.6000000000000001, the same buys in reverse order give 0.6, and neither is the exact
  total of the three quantities.
\<close>

theorem netQuantity_depends_on_order:
  "map_option netQty (map_of (groupEntries64 exampleDateParse tenths) ''DOT'')
     = Some (5404319552844596 / 9007199254740992)
 \<and> map_option netQty (map_of (groupEntries64 exampleDateParse (rev tenths)) ''DOT'')
     = Some (5404319552844595 / 9007199254740992)
 \<and> netOf ''DOT'' tenths = 21617278211378381 / 36028797018963968
 \<and> netQuantity64 (detailTransactions exampleDateParse ''DOT'' tenths)
     \<noteq> netQuantity64 (detailTransactions exampleDateParse ''DOT'' (rev tenths))"
  by code_simp

section \<open>The latest transaction\<close>

lemma replacesLatest_cases:
  "replacesLatest dateParse tx l \<longleftrightarrow>
     parseTime dateParse (date l) = None \<or> earlierThan dateParse l tx"
  by (cases "parseTime dateParse (date l)"; cases "parseTime dateParse (date tx)")
     (auto simp: replacesLatest_def earlierThan_def Let_def)

lemma notBefore_step:
  assumes "notBefore dateParse a l"
  shows "notBefore dateParse a (if replacesLatest dateParse tx l then tx else l)"
  using assms
  by (cases "parseTime dateParse (date l)"; cases "parseTime dateParse (date tx)";
      cases "parseTime dateParse (date a)")
     (auto simp: notBefore_def replacesLatest_cases earlierThan_def)

lemma notBefore_self:
  "parseTime dateParse (date a) \<noteq> None \<Longrightarrow> notBefore dateParse a a"
  by (auto simp: notBefore_def earlierThan_def)

lemma latestFold_notBefore:
  assumes "parseTime dateParse (date a) \<noteq> None"
    and "notBefore dateParse a l \<or> a \<in> set txs"
  shows "notBefore dateParse a (latestFold dateParse txs l)"
  using assms(2)
proof (induction txs arbitrary: l)
  case Nil
  then show ?case by simp
next
  case (Cons tx txs)
  let ?l' = "if replacesLatest dateParse tx l then tx else l"
  have "notBefore dateParse a ?l' \<or> a \<in> set txs"
  proof (cases "notBefore dateParse a l")
    case True
    then show ?thesis using notBefore_step by blast
  next
    case False
    show ?thesis
    proof (cases "a = tx")
      case True
      show ?thesis
      proof (cases "replacesLatest dateParse tx l")
        case True
        then show ?thesis using \<open>a = tx\<close> notBefore_self [OF assms(1)] by simp
      next
        case False
        then show ?thesis
          using \<open>a = tx\<close> by (auto simp: notBefore_def replacesLatest_cases)
      qed
    next
      case False
      then show ?thesis using Cons.prems \<open>\<not> notBefore dateParse a l\<close> by simp
    qed
  qed
  then show ?case using Cons.IH [of ?l'] by simp
qed

lemma latestFold_greatest:
  assumes "a \<in> set (l # txs)"
    and "parseTime dateParse (date a) \<noteq> None"
    and "\<forall>c \<in> set (l # txs). c \<noteq> a \<longrightarrow>
           parseTime dateParse (date c) = None \<or> earlierThan dateParse c a"
  shows "latestFold dateParse txs l = a"
  using assms(1,3)
proof (induction txs arbitrary: l)
  case Nil
  then show ?case by simp
next
  case (Cons tx txs)
  let ?l' = "if replacesLatest dateParse tx l then tx else l"
  have keep: "c \<noteq> a \<Longrightarrow> c \<in> set (l # tx # txs) \<Longrightarrow> \<not> replacesLatest dateParse c a" for c
    using Cons.prems(2) assms(2)
    by (cases "parseTime dateParse (date c)"; cases "parseTime dateParse (date a)")
       (auto simp: replacesLatest_cases earlierThan_def)
  have take: "c \<noteq> a \<Longrightarrow> c \<in> set (l # tx # txs) \<Longrightarrow> replacesLatest dateParse a c" for c
    using Cons.prems(2) by (auto simp: replacesLatest_cases)
  have mem: "a \<in> set (?l' # txs)"
  proof (cases "a \<in> set txs")
    case True
    then show ?thesis by simp
  next
    case False
    then consider "a = tx" | "a = l" "a \<noteq> tx" using Cons.prems(1) by auto
    then show ?thesis
    proof cases
      case 1
      then show ?thesis using take [of l] by auto
    next
      case 2
      then show ?thesis using keep [of tx] by auto
    qed
  qed
  have "\<forall>c \<in> set (?l' # txs). c \<noteq> a \<longrightarrow>
           parseTime dateParse (date c) = None \<or> earlierThan dateParse c a"
    using Cons.prems(2) by auto
  then show ?case using Cons.IH [OF mem] by simp
qed

text \<open>
  Claim C6. Let \<open>a\<close> and \<open>b\<close> be transactions of one asset, anywhere in the list,
  whose dates parse to the same time, \<open>a\<close> with the higher id. The current reference
  price of the asset is the price of the latest transaction that the loop selected; the
  loop never selects \<open>b\<close>; and it selects \<open>a\<close> whenever every other transaction of
  the asset has a date that does not parse or comes before \<open>a\<close> by date, then id.
  The list is arbitrary, so this holds for every order of the input.
\<close>

theorem latest_prefers_higher_id:
  assumes "a \<in> set assets" and "b \<in> set assets" and "asset_name b = asset_name a"
    and "parseTime dateParse (date a) = Some t" and "parseTime dateParse (date b) = Some t"
    and "asset_id b < asset_id a"
  shows "\<exists>e g. map_of (groupEntries dateParse assets) (asset_name a) = Some e
      \<and> portfolioOf dateParse assets (asset_name a) = Some g
      \<and> currentPrice g = pricePerCoin (latestTransaction e)
      \<and> latestTransaction e \<noteq> b
      \<and> ((\<forall>c \<in> set assets. asset_name c = asset_name a \<and> c \<noteq> a \<longrightarrow>
             parseTime dateParse (date c) = None \<or> earlierThan dateParse c a)
           \<longrightarrow> latestTransaction e = a)"
proof -
  let ?n = "asset_name a"
  let ?txs = "transactionsOf ?n assets"
  have n: "?n \<in> asset_name ` set assets" using assms(1) by simp
  obtain e where e: "map_of (groupEntries dateParse assets) ?n = Some e"
      and latest: "latestTransaction e = latestFold dateParse (tl ?txs) (hd ?txs)"
    using groupEntries_lookup [OF n, of dateParse] by blast
  have group: "set (hd ?txs # tl ?txs) = {tx \<in> set assets. asset_name tx = ?n}"
    by (rule set_transactionsOf [OF n])
  have a_in: "a \<in> set (hd ?txs # tl ?txs)" using assms(1) group by simp
  have parse: "parseTime dateParse (date a) \<noteq> None" using assms(4) by simp
  have "notBefore dateParse a (latestFold dateParse (tl ?txs) (hd ?txs))"
  proof (rule latestFold_notBefore [OF parse])
    show "notBefore dateParse a (hd ?txs) \<or> a \<in> set (tl ?txs)"
      using a_in notBefore_self [OF parse] by auto
  qed
  moreover have "earlierThan dateParse b a"
    using assms(4,5,6) by (simp add: earlierThan_def)
  ultimately have not_b: "latestTransaction e \<noteq> b"
    using latest by (auto simp: notBefore_def)
  have greatest: "latestTransaction e = a"
    if "\<forall>c \<in> set assets. asset_name c = asset_name a \<and> c \<noteq> a \<longrightarrow>
          parseTime dateParse (date c) = None \<or> earlierThan dateParse c a"
  proof -
    have "\<forall>c \<in> set (hd ?txs # tl ?txs). c \<noteq> a \<longrightarrow>
            parseTime dateParse (date c) = None \<or> earlierThan dateParse c a"
      using that unfolding group by simp
    then show ?thesis
      using latestFold_greatest [OF a_in parse] latest by simp
  qed
  show ?thesis
    using e portfolioOf_Some [OF e] not_b greatest
    by (simp add: toGroupedPortfolio_fields)
qed

text \<open>Of two transactions of one day, the price of the one with id 7 is used, in both orders.\<close>

theorem latest_prefers_higher_id_witness:
  "(\<exists>g. portfolioOf exampleDateParse sameDay ''SOL'' = Some g \<and> currentPrice g = 150)
 \<and> (\<exists>g. portfolioOf exampleDateParse (rev sameDay) ''SOL'' = Some g \<and> currentPrice g = 150)"
  using latest_prefers_higher_id [of "transaction 7 ''SOL'' Buy 1 150 (Some ''2024-02-01'')" sameDay
          "transaction 5 ''SOL'' Buy 1 100 (Some ''2024-02-01'')" exampleDateParse 1706745600000]
        latest_prefers_higher_id [of "transaction 7 ''SOL'' Buy 1 150 (Some ''2024-02-01'')" "rev sameDay"
          "transaction 5 ''SOL'' Buy 1 100 (Some ''2024-02-01'')" exampleDateParse 1706745600000]
  by (auto simp add: ex_defs parseTime_def earlierThan_def)

text \<open>
  Claim C7 fails on the code. When no date of a group parses, the loop replaces the
  latest transaction at every step, so the last transaction of the list is selected,
  whatever its id: for two transactions without a date, given with the higher id first,
  the one with the lower id is selected.
\<close>

theorem latest_of_undated_is_last:
  "(\<exists>g. portfolioOf exampleDateParse undated ''ADA'' = Some g \<and> currentPrice g = 1)
 \<and> (\<exists>e. map_of (groupEntries exampleDateParse undated) ''ADA'' = Some e
        \<and> asset_id (latestTransaction e) = 8)"
  by (simp add: ex_defs model_defs)

section \<open>The roll-ups\<close>

lemma portfolioSummary_fields:
  "firstCapital (portfolioSummary gps) = 2000"
  "totalProfit (portfolioSummary gps) =
     sum_list (map (\<lambda>g. case profitValue g of None \<Rightarrow> 0 | Some p \<Rightarrow> p) gps)"
  "totalUsdt (portfolioSummary gps) = 2000 + totalProfit (portfolioSummary gps)"
  "remainUsdt (portfolioSummary gps) =
     totalUsdt (portfolioSummary gps) - sum_list (map (\<lambda>g. max (holdingsValue g) 0) gps)"
  by (simp_all add: portfolioSummary_def Let_def reduceSum_sum_list)

lemma summary_fields:
  "ds_firstCapital (summary dps) = 2000"
  "ds_totalProfitNet (summary dps) =
     sum_list (map (\<lambda>d. case dp_profitValue d of None \<Rightarrow> 0 | Some p \<Rightarrow> p) dps)"
  "ds_totalProfit (summary dps) =
     sum_list (map (\<lambda>d. max (case dp_profitValue d of None \<Rightarrow> 0 | Some p \<Rightarrow> p) 0) dps)"
  "ds_totalLoss (summary dps) =
     sum_list (map (\<lambda>d. min (case dp_profitValue d of None \<Rightarrow> 0 | Some p \<Rightarrow> p) 0) dps)"
  "ds_remainUsdt (summary dps) = 2000 - sum_list (map (\<lambda>d. max (currentCost d) 0) dps)"
  by (simp_all add: summary_def Let_def reduceSum_sum_list)

text \<open>
  Claim C5, as amended. The roll-up of the assets page has the initial capital 2000;
  its total profit is the sum of the realized profits, an absent one counting as zero;
  its total is the initial capital plus the total profit; and its remaining capital is
  that total minus the sum of the holdings values, each floored at zero before summing.
  The roll-up of the dashboard has the same initial capital and the same sum as its net
  profit, but its total profit sums the positive profits only, its total loss the
  negative ones, and its remaining capital is the initial capital minus the sum of the
  remaining cost bases, each floored at zero: no profit is added.
\<close>

theorem rollup_per_view:
  "firstCapital (portfolioSummary gps) = 2000
 \<and> totalProfit (portfolioSummary gps) = sum_list (map (\<lambda>g. profitOrZero (profitValue g)) gps)
 \<and> totalUsdt (portfolioSummary gps) = firstCapital (portfolioSummary gps) + totalProfit (portfolioSummary gps)
 \<and> remainUsdt (portfolioSummary gps) =
      totalUsdt (portfolioSummary gps) - sum_list (map (\<lambda>g. max (holdingsValue g) 0) gps)
 \<and> ds_firstCapital (summary dps) = 2000
 \<and> ds_totalProfitNet (summary dps) = sum_list (map (\<lambda>d. profitOrZero (dp_profitValue d)) dps)
 \<and> ds_totalProfit (summary dps) = sum_list (map (\<lambda>d. max (profitOrZero (dp_profitValue d)) 0) dps)
 \<and> ds_totalLoss (summary dps) = sum_list (map (\<lambda>d. min (profitOrZero (dp_profitValue d)) 0) dps)
 \<and> ds_remainUsdt (summary dps) =
      ds_firstCapital (summary dps) - sum_list (map (\<lambda>d. max (currentCost d) 0) dps)"
  unfolding profitOrZero_def
  by (simp add: portfolioSummary_fields summary_fields)

text \<open>Scenarios B and F together: profit 10000, total 12000, remaining capital -13000.\<close>

theorem rollup_per_view_witness:
  "totalProfit (portfolioSummary (groupedPortfolios exampleDateParse mixedLedger)) = 10000
 \<and> totalUsdt (portfolioSummary (groupedPortfolios exampleDateParse mixedLedger)) = 12000
 \<and> remainUsdt (portfolioSummary (groupedPortfolios exampleDateParse mixedLedger)) = - 13000
 \<and> ds_remainUsdt (summary (dashboardPortfolios exampleDateParse mixedLedger)) = - 13000"
  using rollup_per_view [of "groupedPortfolios exampleDateParse mixedLedger"
          "dashboardPortfolios exampleDateParse mixedLedger"]
  by (simp add: mixedLedger_def ex_defs model_defs dashboardPortfolios_def toDashboardPortfolio_def
      profitOrZero_def)

text \<open>
  Claim C5 as stated fails on the dashboard: on scenario B its remaining capital is
  -13000, not the initial capital plus the profit minus the holdings, which is -3000.
\<close>

theorem dashboard_remaining_ignores_profit:
  "ds_totalProfitNet (summary (dashboardPortfolios exampleDateParse scenarioB)) = 10000
 \<and> reduceSum (\<lambda>d. max (currentCost d) 0) (dashboardPortfolios exampleDateParse scenarioB) = 15000
 \<and> ds_remainUsdt (summary (dashboardPortfolios exampleDateParse scenarioB)) = - 13000
 \<and> ds_remainUsdt (summary (dashboardPortfolios exampleDateParse scenarioB)) \<noteq>
     ds_firstCapital (summary (dashboardPortfolios exampleDateParse scenarioB))
     + ds_totalProfitNet (summary (dashboardPortfolios exampleDateParse scenarioB))
     - reduceSum (\<lambda>d. max (currentCost d) 0) (dashboardPortfolios exampleDateParse scenarioB)"
  by (simp add: ex_defs model_defs dash_defs)

section \<open>The holdings of the dashboard\<close>

lemma holdingsStep_keyedStep: "holdingsStep = keyedStep asset_name holdingEntryStep"
  by (rule ext, rule ext) (simp add: holdingsStep_def keyedStep_def holdingEntryStep_def Let_def)

lemma holdingEntryStep_Some:
  "he_name (holdingEntryStep tx (Some e)) = he_name e"
  "he_quantity (holdingEntryStep tx (Some e)) = fadd (he_quantity e) (signedQuantity tx)"
  by (simp_all add: holdingEntryStep_def signedQuantity_def Let_def fsub_fadd)

lemma holdingEntryStep_None:
  "he_name (holdingEntryStep tx None) = asset_name tx"
  "he_quantity (holdingEntryStep tx None) = fadd 0 (signedQuantity tx)"
  by (simp_all add: holdingEntryStep_def signedQuantity_def Let_def fsub_fadd)

lemma holdingFold_Some:
  "\<exists>e'. keyedFold holdingEntryStep txs (Some e) = Some e'
      \<and> he_name e' = he_name e
      \<and> he_quantity e' = runningSum (he_quantity e) (map signedQuantity txs)"
proof (induction txs arbitrary: e)
  case Nil
  show ?case by simp
next
  case (Cons tx txs)
  show ?case
    using Cons.IH [of "holdingEntryStep tx (Some e)"]
    by (auto simp: holdingEntryStep_Some)
qed

lemma holdingFold_None:
  assumes "txs \<noteq> []"
  shows "\<exists>e'. keyedFold holdingEntryStep txs None = Some e'
      \<and> he_name e' = asset_name (hd txs)
      \<and> he_quantity e' = runningSum 0 (map signedQuantity txs)"
proof (cases txs)
  case Nil
  with assms show ?thesis by simp
next
  case (Cons tx rest)
  show ?thesis
    using holdingFold_Some [of rest "holdingEntryStep tx None"]
    by (auto simp: Cons holdingEntryStep_None)
qed

lemma holdingEntries_lookup:
  assumes "n \<in> asset_name ` set assets"
  shows "\<exists>e. map_of (holdingEntries assets) n = Some e \<and> he_name e = n
      \<and> he_quantity e = runningSum 0 (groupSigned n assets)"
proof -
  have "map_of (holdingEntries assets) n = keyedFold holdingEntryStep (transactionsOf n assets) None"
    by (simp add: holdingEntries_def holdingsStep_keyedStep map_of_fold_keyedStep transactionsOf_def)
  then show ?thesis
    using holdingFold_None [OF transactionsOf_nonempty [OF assms]]
    by (simp add: hd_transactionsOf [OF assms] groupSigned_def)
qed

lemma holdingEntries_member:
  assumes "(k, e) \<in> set (holdingEntries assets)"
  shows "k \<in> asset_name ` set assets"
    and "map_of (holdingEntries assets) k = Some e"
proof -
  show "k \<in> asset_name ` set assets"
    using assms keys_fold_keyedStep [of asset_name holdingEntryStep assets "[]"]
    by (force simp: holdingEntries_def holdingsStep_keyedStep)
  have "distinct (map fst (holdingEntries assets))"
    by (simp add: holdingEntries_def holdingsStep_keyedStep distinct_fold_keyedStep)
  then show "map_of (holdingEntries assets) k = Some e"
    using assms by simp
qed

lemma holdings_names:
  "(\<lambda>h. (h_name h, h_quantity h)) ` set (holdings assets) =
     (\<lambda>e. (he_name e, he_quantity e)) `
       {e \<in> snd ` set (holdingEntries assets). 0 < he_quantity e}"
proof -
  let ?kept = "filter (\<lambda>item. 0 < he_quantity item) (map snd (holdingEntries assets))"
  have "map (\<lambda>h. (h_name h, h_quantity h)) (holdings assets) =
        map (\<lambda>e. (he_name e, he_quantity e)) ?kept"
    unfolding holdings_def Let_def holdingEntries_def
    by (rule map_indexed_proj) simp
  then have "set (map (\<lambda>h. (h_name h, h_quantity h)) (holdings assets)) =
        set (map (\<lambda>e. (he_name e, he_quantity e)) ?kept)"
    by simp
  then show ?thesis by simp
qed

lemma holdings_entry:
  assumes "h \<in> set (holdings assets)"
  shows "0 < h_quantity h" and "h_name h \<in> asset_name ` set assets"
    and "h_quantity h = runningSum 0 (groupSigned (h_name h) assets)"
proof -
  have "(h_name h, h_quantity h) \<in> (\<lambda>h. (h_name h, h_quantity h)) ` set (holdings assets)"
    using assms by (rule imageI)
  then obtain k e where ke: "(k, e) \<in> set (holdingEntries assets)" and pos: "0 < he_quantity e"
      and h: "h_name h = he_name e" "h_quantity h = he_quantity e"
    unfolding holdings_names by auto
  have k: "k \<in> asset_name ` set assets" by (rule holdingEntries_member(1) [OF ke])
  have "he_name e = k \<and> he_quantity e = runningSum 0 (groupSigned k assets)"
    using holdingEntries_lookup [OF k] holdingEntries_member(2) [OF ke] by auto
  then show "0 < h_quantity h" and "h_name h \<in> asset_name ` set assets"
    and "h_quantity h = runningSum 0 (groupSigned (h_name h) assets)"
    using pos h k by simp_all
qed

lemma holdings_listed:
  assumes "n \<in> asset_name ` set assets" and "0 < runningSum 0 (groupSigned n assets)"
  shows "n \<in> h_name ` set (holdings assets)"
proof -
  obtain e where e: "map_of (holdingEntries assets) n = Some e" and en: "he_name e = n"
      and q: "he_quantity e = runningSum 0 (groupSigned n assets)"
    using holdingEntries_lookup [OF assms(1)] by auto
  have "e \<in> snd ` set (holdingEntries assets)"
    using map_of_SomeD [OF e] by force
  then have "e \<in> {e \<in> snd ` set (holdingEntries assets). 0 < he_quantity e}"
    using assms(2) q by simp
  then have "(he_name e, he_quantity e) \<in> (\<lambda>h. (h_name h, h_quantity h)) ` set (holdings assets)"
    unfolding holdings_names by (rule imageI)
  then show ?thesis using en by force
qed

text \<open>
  Claim C10, as amended. Every entry of the holdings list has a strictly positive
  quantity, and that quantity is the running sum from zero, in list order and over the
  whole list, of the quantities of its asset, a buy counting positive and a sell
  negative, each addition rounded to a double. An asset name is in the holdings list
  exactly when it occurs in the list and that running sum is positive. Whenever no
  addition of the running sum rounds, it is the total quantity of the buys minus that
  of the sells, so that an asset whose buys minus sells is zero or negative is then not
  a holding.
\<close>

theorem holdings_running_sum_positive:
  "(\<forall>h \<in> set (holdings assets).
       0 < h_quantity h \<and> h_name h \<in> asset_name ` set assets
       \<and> h_quantity h = runningSum 0 (groupSigned (h_name h) assets))
 \<and> (\<forall>n. n \<in> h_name ` set (holdings assets) \<longleftrightarrow>
           n \<in> asset_name ` set assets \<and> 0 < runningSum 0 (groupSigned n assets))
 \<and> (\<forall>n. noRounding 0 (groupSigned n assets) \<longrightarrow>
           runningSum 0 (groupSigned n assets) = netOf n assets)"
proof (intro conjI ballI allI impI)
  fix h assume "h \<in> set (holdings assets)"
  then show "0 < h_quantity h" and "h_name h \<in> asset_name ` set assets"
    and "h_quantity h = runningSum 0 (groupSigned (h_name h) assets)"
    by (rule holdings_entry)+
next
  fix n
  show "n \<in> h_name ` set (holdings assets) \<longleftrightarrow>
           n \<in> asset_name ` set assets \<and> 0 < runningSum 0 (groupSigned n assets)"
  proof
    assume "n \<in> h_name ` set (holdings assets)"
    then obtain h where "h \<in> set (holdings assets)" and "h_name h = n" by auto
    then show "n \<in> asset_name ` set assets \<and> 0 < runningSum 0 (groupSigned n assets)"
      using holdings_entry [of h assets] by auto
  next
    assume "n \<in> asset_name ` set assets \<and> 0 < runningSum 0 (groupSigned n assets)"
    then show "n \<in> h_name ` set (holdings assets)"
      using holdings_listed by blast
  qed
next
  fix n assume "noRounding 0 (groupSigned n assets)"
  then show "runningSum 0 (groupSigned n assets) = netOf n assets"
    by (simp add: runningSum_exact sum_list_groupSigned)
qed

text \<open>
  Of scenarios B and F together, where no addition rounds, BTC is the first holding,
  with its buys minus sells, and ETH, which was only sold, is not a holding.
\<close>

lemma mixedLedger_sums:
  "noRounding 0 (groupSigned ''BTC'' mixedLedger)"
  "noRounding 0 (groupSigned ''ETH'' mixedLedger)"
  "hd (holdings mixedLedger) \<in> set (holdings mixedLedger)"
  "h_name (hd (holdings mixedLedger)) = ''BTC''"
  by code_simp+

theorem holdings_running_sum_positive_witness:
  "0 < h_quantity (hd (holdings mixedLedger))
 \<and> h_quantity (hd (holdings mixedLedger)) = netOf ''BTC'' mixedLedger
 \<and> ''BTC'' \<in> h_name ` set (holdings mixedLedger)
 \<and> ''ETH'' \<notin> h_name ` set (holdings mixedLedger)"
proof -
  note hp = holdings_running_sum_positive [of mixedLedger]
  have net: "netOf ''BTC'' mixedLedger = 1" "netOf ''ETH'' mixedLedger = - 2"
    by (simp_all add: netOf_def mixedLedger_def ex_defs buysOf_def sellsOf_def)
  have names: "''BTC'' \<in> asset_name ` set mixedLedger"
    by (simp add: mixedLedger_def ex_defs)
  have run: "runningSum 0 (groupSigned ''BTC'' mixedLedger) = 1"
      "runningSum 0 (groupSigned ''ETH'' mixedLedger) = - 2"
    using hp mixedLedger_sums(1,2) net by simp_all
  have "0 < h_quantity (hd (holdings mixedLedger))
      \<and> h_quantity (hd (holdings mixedLedger)) = netOf ''BTC'' mixedLedger"
    using hp mixedLedger_sums(3,4) run(1) net(1) by metis
  moreover have "''BTC'' \<in> h_name ` set (holdings mixedLedger)"
    using hp run names by simp
  moreover have "''ETH'' \<notin> h_name ` set (holdings mixedLedger)"
    using hp run by simp
  ultimately show ?thesis by simp
qed

text \<open>
  Claim C10 as stated fails: buys of 1.46 and 0.87 followed by sells of 1.45 and 0.88
  have quantities whose buys minus sells is exactly zero, and the running sum leaves
  \<open>2 ^ -53\<close>, so the asset is listed as a holding.
\<close>

theorem holdings_keeps_cancelled_position:
  "netOf ''LTC'' residueLedger = 0
 \<and> map h_name (holdings residueLedger) = [''LTC'']
 \<and> map h_quantity (holdings residueLedger) = [1 / 9007199254740992]"
  by code_simp

section \<open>Properties of the stored list fields\<close>

lemma trim_Nil [simp]: "trim [] = []"
  by (simp add: trim_def)

text \<open>
  Claim C8, as amended. On a string field the parser returns a list of strings and never
  fails: the empty list for the empty string; for a text that \<^verbatim>\<open>JSON.parse\<close>
  rejects, the pieces of the text between commas, trimmed, without the empty ones; for
  a JSON array, its items as strings; and the empty list for any other JSON value. The
  parser of the strategy model is the same function.
\<close>

theorem parse_list_field:
  "parseReferenceImages jsonParse toStr (JString []) = []
 \<and> (s \<noteq> [] \<longrightarrow>
       parseReferenceImages jsonParse toStr (JString s) =
         (case jsonParse s of
            None \<Rightarrow> filter (\<lambda>item. item \<noteq> []) (map trim (splitComma s))
          | Some (JArray items) \<Rightarrow> map toStr items
          | Some _ \<Rightarrow> []))
 \<and> parseImageReferences jsonParse toStr v = parseReferenceImages jsonParse toStr v"
  by (simp add: parseReferenceImages_def parseImageReferences_def)

text \<open>
  A JSON number and a text of blanks and a comma give the empty list; a comma-separated
  list gives its two items.
\<close>

theorem parse_list_field_witness:
  "parseReferenceImages exampleJsonParse exampleToStr (JString ''7'') = []
 \<and> parseReferenceImages exampleJsonParse exampleToStr (JString '' , '') = []
 \<and> parseImageReferences exampleJsonParse exampleToStr (JString ''a.png, b.png'')
     = [''a.png'', ''b.png'']"
  using parse_list_field [of exampleJsonParse exampleToStr "''7''" "JString ''7''"]
        parse_list_field [of exampleJsonParse exampleToStr "'' , ''" "JString '' , ''"]
        parse_list_field [of exampleJsonParse exampleToStr "''a.png, b.png''" "JString ''a.png, b.png''"]
  by (simp add: exampleJsonParse_def trim_def is_space_def)

text \<open>
  Claim C8 as stated fails: a field that does not parse as JSON gives its
  comma-separated pieces, not the empty list.
\<close>

theorem malformed_list_is_split:
  "exampleJsonParse ''a.png, b.png'' = None
 \<and> parseReferenceImages exampleJsonParse exampleToStr (JString ''a.png, b.png'')
     = [''a.png'', ''b.png'']"
  by (simp add: parseReferenceImages_def exampleJsonParse_def trim_def is_space_def)

end
